theory Spec2Isabelle
  imports Complex_Main
begin

section \<open>Polymarket compounder: ledger, risk manager, book walk, order recovery\<close>

text \<open>
  A shallow embedding of the trading engine's bookkeeping code. Python floats are
  modelled as \<^typ>\<open>real\<close>, with exact arithmetic except in the book walk, where each
  operation is rounded to a double (see there); Python ints as
  \<^typ>\<open>int\<close>, \<^verbatim>\<open>Optional[T]\<close> as \<^typ>\<open>'a option\<close>. Every read of
  \<^verbatim>\<open>time.time()\<close> inside one call is the parameter \<open>now\<close> of that call.
  Object state is passed explicitly: a method takes the object and returns the
  updated object next to its result.
\<close>

subsection \<open>config.py\<close>

definition ARB_THRESHOLD :: real where "ARB_THRESHOLD = 0.985"
definition HIGH_PRIORITY_THRESHOLD :: real where "HIGH_PRIORITY_THRESHOLD = 0.94"
definition MAX_TRADE_USD :: real where "MAX_TRADE_USD = 100"
definition MIN_TRADE_USD :: real where "MIN_TRADE_USD = 2"
definition MAX_POSITION_PCT :: real where "MAX_POSITION_PCT = 0.20"
definition MAX_TOTAL_EXPOSURE_PCT :: real where "MAX_TOTAL_EXPOSURE_PCT = 0.40"
definition MAX_CONSECUTIVE_LOSSES :: int where "MAX_CONSECUTIVE_LOSSES = 3"
definition MAX_DAILY_DRAWDOWN_PCT :: real where "MAX_DAILY_DRAWDOWN_PCT = 0.05"
definition MAX_SINGLE_LOSS_PCT :: real where "MAX_SINGLE_LOSS_PCT = 0.03"
definition COOLDOWN_MINUTES :: int where "COOLDOWN_MINUTES = 30"
definition RECOVERY_POSITION_MULTIPLIER :: real where "RECOVERY_POSITION_MULTIPLIER = 0.5"
definition RECOVERY_TRADE_COUNT :: int where "RECOVERY_TRADE_COUNT = 5"
definition MAX_STRATEGY_EXPOSURE_PCT :: real where "MAX_STRATEGY_EXPOSURE_PCT = 0.30"
definition MAX_RETRIES :: nat where "MAX_RETRIES = 3"

subsection \<open>core/position\_tracker.py\<close>

text \<open>
  The field \<^verbatim>\<open>size\<close> is \<open>size_shares\<close> here (\<open>size\<close> is a HOL constant); the
  fields of \<^verbatim>\<open>TradeRecord\<close> that share a name with a field of \<^verbatim>\<open>Position\<close>
  carry the prefix \<open>r_\<close>.
\<close>

record Position =
  token_id :: string
  market_id :: string
  market_question :: string
  side :: string
  entry_price :: real
  size_shares :: real
  strategy :: string
  opened_at :: real
  exit_price :: "real option"
  closed_at :: "real option"

definition is_open :: "Position \<Rightarrow> bool" where
  "is_open p = (exit_price p = None)"

definition cost_basis :: "Position \<Rightarrow> real" where
  "cost_basis p = entry_price p * size_shares p"

definition pnl :: "Position \<Rightarrow> real option" where
  "pnl p = (case exit_price p of
              None \<Rightarrow> None
            | Some x \<Rightarrow> Some ((x - entry_price p) * size_shares p))"

definition pnl_pct :: "Position \<Rightarrow> real option" where
  "pnl_pct p = (case exit_price p of
                  None \<Rightarrow> None
                | Some x \<Rightarrow> if entry_price p = 0 then None
                            else Some ((x - entry_price p) / entry_price p))"

text \<open>\<^verbatim>\<open>v or 0.0\<close>: \<^verbatim>\<open>None\<close> and \<^verbatim>\<open>0.0\<close> are both falsy and both give \<open>0\<close>.\<close>

definition or_zero :: "real option \<Rightarrow> real" where
  "or_zero v = (case v of None \<Rightarrow> 0 | Some x \<Rightarrow> if x = 0 then 0 else x)"

record TradeRecord =
  timestamp :: real
  r_strategy :: string
  market_name :: string
  r_side :: string
  r_entry_price :: real
  r_exit_price :: real
  size_usd :: real
  pnl_usd :: real
  r_pnl_pct :: real
  balance_after :: real
  phase :: int

record PositionTracker =
  positions :: "Position list"
  trade_history :: "TradeRecord list"
  consecutive_losses :: int
  consecutive_wins :: int
  max_win_streak :: int
  max_loss_streak :: int

definition new_tracker :: PositionTracker where
  "new_tracker = \<lparr>positions = [], trade_history = [], consecutive_losses = 0,
     consecutive_wins = 0, max_win_streak = 0, max_loss_streak = 0\<rparr>"

definition open_position ::
  "PositionTracker \<Rightarrow> string \<Rightarrow> string \<Rightarrow> string \<Rightarrow> string \<Rightarrow> real \<Rightarrow> real \<Rightarrow> string \<Rightarrow> real
     \<Rightarrow> Position \<times> PositionTracker" where
  "open_position t tok mid question sd entry sz strat now =
     (let pos = \<lparr>token_id = tok, market_id = mid, market_question = question, side = sd,
                  entry_price = entry, size_shares = sz, strategy = strat, opened_at = now,
                  exit_price = None, closed_at = None\<rparr>
      in (pos, t\<lparr>positions := positions t @ [pos]\<rparr>))"

text \<open>
  \<^verbatim>\<open>_find_open\<close> walks \<^verbatim>\<open>reversed(self._positions)\<close> and returns the first hit.
  The model returns the index of that position in the list: the tail (the newer
  positions) is searched before the head.
\<close>

fun find_open_in :: "Position list \<Rightarrow> string \<Rightarrow> nat option" where
  "find_open_in [] tok = None"
| "find_open_in (p # ps) tok =
     (case find_open_in ps tok of
        Some i \<Rightarrow> Some (Suc i)
      | None \<Rightarrow> if token_id p = tok \<and> is_open p then Some 0 else None)"

definition find_open :: "PositionTracker \<Rightarrow> string \<Rightarrow> nat option" where
  "find_open t tok = find_open_in (positions t) tok"

text \<open>
  In \<^verbatim>\<open>close_position\<close> the record's timestamp is \<^verbatim>\<open>pos.closed_at\<close>, which the
  call has just set to its clock reading: the model writes \<open>now\<close> for both. The
  position object is changed in place; in the model the entry of the list is replaced.
\<close>

definition close_position ::
  "PositionTracker \<Rightarrow> string \<Rightarrow> real \<Rightarrow> real \<Rightarrow> int \<Rightarrow> real
     \<Rightarrow> TradeRecord option \<times> PositionTracker" where
  "close_position t tok exit_p bal_after ph now =
     (case find_open t tok of
        None \<Rightarrow> (None, t)
      | Some i \<Rightarrow>
          (let pos = (positions t ! i)\<lparr>exit_price := Some exit_p, closed_at := Some now\<rparr>;
               pnl_v = or_zero (pnl pos);
               pnl_pct_v = or_zero (pnl_pct pos);
               t1 = (if pnl_v \<ge> 0
                     then t\<lparr>consecutive_wins := consecutive_wins t + 1,
                            consecutive_losses := 0,
                            max_win_streak := max (max_win_streak t) (consecutive_wins t + 1)\<rparr>
                     else t\<lparr>consecutive_losses := consecutive_losses t + 1,
                            consecutive_wins := 0,
                            max_loss_streak := max (max_loss_streak t) (consecutive_losses t + 1)\<rparr>);
               record = \<lparr>timestamp = now, r_strategy = strategy pos,
                         market_name = market_question pos, r_side = side pos,
                         r_entry_price = entry_price pos, r_exit_price = exit_p,
                         size_usd = cost_basis pos, pnl_usd = pnl_v, r_pnl_pct = pnl_pct_v,
                         balance_after = bal_after, phase = ph\<rparr>
           in (Some record,
               t1\<lparr>positions := (positions t)[i := pos],
                  trade_history := trade_history t @ [record]\<rparr>)))"

definition open_positions :: "PositionTracker \<Rightarrow> Position list" where
  "open_positions t = filter is_open (positions t)"

definition total_exposure :: "PositionTracker \<Rightarrow> real" where
  "total_exposure t = sum_list (map cost_basis (filter is_open (positions t)))"

definition strategy_exposure :: "PositionTracker \<Rightarrow> string \<Rightarrow> real" where
  "strategy_exposure t strat =
     sum_list (map cost_basis (filter (\<lambda>p. is_open p \<and> strategy p = strat) (positions t)))"

definition strategy_position_count :: "PositionTracker \<Rightarrow> string \<Rightarrow> int" where
  "strategy_position_count t strat =
     int (length (filter (\<lambda>p. is_open p \<and> strategy p = strat) (positions t)))"

text \<open>
  Sequences of ledger calls, run from the empty ledger of \<^verbatim>\<open>__init__\<close>, and the
  trailing runs of the trade history that the streak counters are compared with.
\<close>

datatype LedgerOp =
    Open_position string string string string real real string real
  | Close_position string real real int real

fun ledger_step :: "PositionTracker \<Rightarrow> LedgerOp \<Rightarrow> PositionTracker" where
  "ledger_step t (Open_position tok mid question sd entry sz strat now) =
     snd (open_position t tok mid question sd entry sz strat now)"
| "ledger_step t (Close_position tok exit_p bal_after ph now) =
     snd (close_position t tok exit_p bal_after ph now)"

definition run_ledger :: "LedgerOp list \<Rightarrow> PositionTracker" where
  "run_ledger ops = foldl ledger_step new_tracker ops"

definition trailing_losses :: "TradeRecord list \<Rightarrow> int" where
  "trailing_losses h = int (length (takeWhile (\<lambda>r. pnl_usd r < 0) (rev h)))"

definition trailing_wins :: "TradeRecord list \<Rightarrow> int" where
  "trailing_wins h = int (length (takeWhile (\<lambda>r. pnl_usd r \<ge> 0) (rev h)))"

definition streaks_ok :: "PositionTracker \<Rightarrow> bool" where
  "streaks_ok t =
     (consecutive_losses t = trailing_losses (trade_history t) \<and>
      consecutive_wins t = trailing_wins (trade_history t) \<and>
      consecutive_wins t \<le> max_win_streak t \<and>
      consecutive_losses t \<le> max_loss_streak t)"

subsection \<open>utils/risk\_manager.py\<close>

datatype RiskState = NORMAL | COOLDOWN | RECOVERY

text \<open>The fields of \<^verbatim>\<open>TradeRequest\<close> carry the prefix \<open>q_\<close>.\<close>

record TradeRequest =
  q_strategy :: string
  q_token_id :: string
  q_side :: string
  q_price :: real
  q_size :: real
  max_loss_usd :: real

definition cost_usd :: "TradeRequest \<Rightarrow> real" where
  "cost_usd trade = q_price trade * q_size trade"

text \<open>
  The second component of \<^verbatim>\<open>check_trade\<close>'s result is a formatted string. The model
  keeps which message it is and the values formatted into it; \<open>No_reason\<close> is the
  empty string of an approval.
\<close>

datatype Reason =
    No_reason
  | In_cooldown int
  | Daily_drawdown_limit_hit real
  | Consecutive_loss_limit int
  | Single_trade_loss_too_large real
  | Position_too_large real
  | Total_exposure_limit real
  | Strategy_exposure_limit string real
  | Trade_too_small real
  | Trade_too_large real

text \<open>Python's \<^verbatim>\<open>int(x)\<close> on a float truncates towards zero.\<close>

definition py_int :: "real \<Rightarrow> int" where
  "py_int x = (if x \<ge> 0 then \<lfloor>x\<rfloor> else \<lceil>x\<rceil>)"

text \<open>
  \<^verbatim>\<open>self._tracker\<close> is a reference to the ledger; the model passes the ledger's
  current value to each call that reads it.
\<close>

record RiskManager =
  state :: RiskState
  cooldown_until :: real
  recovery_trades_remaining :: int
  day_start_balance :: real
  day_start_time :: real
  last_known_balance :: real

definition new_risk_manager :: "real \<Rightarrow> RiskManager" where
  "new_risk_manager now = \<lparr>state = NORMAL, cooldown_until = 0, recovery_trades_remaining = 0,
     day_start_balance = 0, day_start_time = now, last_known_balance = 0\<rparr>"

definition set_day_start_balance :: "RiskManager \<Rightarrow> real \<Rightarrow> real \<Rightarrow> RiskManager" where
  "set_day_start_balance s bal now = s\<lparr>day_start_balance := bal, day_start_time := now\<rparr>"

definition enter_cooldown :: "RiskManager \<Rightarrow> bool \<Rightarrow> real \<Rightarrow> RiskManager" where
  "enter_cooldown s extended now =
     (let minutes = COOLDOWN_MINUTES * (if extended then 4 else 1)
      in s\<lparr>state := COOLDOWN, cooldown_until := now + real_of_int (minutes * 60)\<rparr>)"

definition enter_recovery :: "RiskManager \<Rightarrow> RiskManager" where
  "enter_recovery s = s\<lparr>state := RECOVERY, recovery_trades_remaining := RECOVERY_TRADE_COUNT\<rparr>"

text \<open>
  The six gates of \<^verbatim>\<open>check_trade\<close> that read only the request, the balance and
  the ledger (source lines 115 to 161). They change no state.
\<close>

definition size_gates :: "PositionTracker \<Rightarrow> TradeRequest \<Rightarrow> real \<Rightarrow> bool \<times> Reason" where
  "size_gates t trade bal =
     (if bal > 0 \<and> max_loss_usd trade / bal > MAX_SINGLE_LOSS_PCT
        then (False, Single_trade_loss_too_large (max_loss_usd trade / bal))
      else if bal > 0 \<and> cost_usd trade / bal > MAX_POSITION_PCT
        then (False, Position_too_large (cost_usd trade / bal))
      else if bal > 0 \<and> (total_exposure t + cost_usd trade) / bal > MAX_TOTAL_EXPOSURE_PCT
        then (False, Total_exposure_limit ((total_exposure t + cost_usd trade) / bal))
      else if bal > 0 \<and>
              (strategy_exposure t (q_strategy trade) + cost_usd trade) / bal
                > MAX_STRATEGY_EXPOSURE_PCT
        then (False, Strategy_exposure_limit (q_strategy trade)
                ((strategy_exposure t (q_strategy trade) + cost_usd trade) / bal))
      else if cost_usd trade < MIN_TRADE_USD then (False, Trade_too_small (cost_usd trade))
      else if cost_usd trade > MAX_TRADE_USD then (False, Trade_too_large (cost_usd trade))
      else (True, No_reason))"

text \<open>The condition of the daily-drawdown gate (source lines 98 to 100).\<close>

definition drawdown_hit :: "RiskManager \<Rightarrow> real \<Rightarrow> bool" where
  "drawdown_hit s bal =
     (day_start_balance s > 0 \<and>
      (day_start_balance s - bal) / day_start_balance s \<ge> MAX_DAILY_DRAWDOWN_PCT)"

definition check_trade ::
  "RiskManager \<Rightarrow> PositionTracker \<Rightarrow> TradeRequest \<Rightarrow> real \<Rightarrow> real
     \<Rightarrow> (bool \<times> Reason) \<times> RiskManager" where
  "check_trade s0 t trade bal now =
     (let s = s0\<lparr>last_known_balance := bal\<rparr> in
      if state s = COOLDOWN \<and> now < cooldown_until s
        then ((False, In_cooldown (py_int (cooldown_until s - now))), s)
      else
        (let s1 = (if state s = COOLDOWN then enter_recovery s else s) in
         if drawdown_hit s1 bal
           then ((False, Daily_drawdown_limit_hit
                           ((day_start_balance s1 - bal) / day_start_balance s1)),
                 enter_cooldown s1 False now)
         else if consecutive_losses t \<ge> MAX_CONSECUTIVE_LOSSES \<and> state s1 \<noteq> RECOVERY
           then ((False, Consecutive_loss_limit (consecutive_losses t)),
                 enter_cooldown s1 False now)
         else (size_gates t trade bal, s1)))"

definition get_position_multiplier :: "RiskManager \<Rightarrow> real" where
  "get_position_multiplier s =
     (if state s = RECOVERY then RECOVERY_POSITION_MULTIPLIER else 1)"

definition record_trade_completed :: "RiskManager \<Rightarrow> bool \<Rightarrow> real \<Rightarrow> RiskManager" where
  "record_trade_completed s is_win now =
     (if state s = RECOVERY then
        (let s1 = s\<lparr>recovery_trades_remaining := recovery_trades_remaining s - 1\<rparr> in
         if \<not> is_win then enter_cooldown s1 True now
         else if recovery_trades_remaining s1 \<le> 0 then s1\<lparr>state := NORMAL\<rparr>
         else s1)
      else s)"

definition is_trading_allowed :: "RiskManager \<Rightarrow> real \<Rightarrow> bool" where
  "is_trading_allowed s now =
     (if state s = COOLDOWN then now \<ge> cooldown_until s else True)"

text \<open>
  A sequence of \<^verbatim>\<open>check_trade\<close> calls: each call is given with the ledger as it
  stands at the call, the request, the balance and the clock reading.
\<close>

type_synonym check_call = "PositionTracker \<times> TradeRequest \<times> real \<times> real"

fun check_trades :: "RiskManager \<Rightarrow> check_call list \<Rightarrow> (bool \<times> Reason) list \<times> RiskManager" where
  "check_trades s [] = ([], s)"
| "check_trades s ((t, trade, bal, now) # cs) =
     (let (res, s1) = check_trade s t trade bal now;
          (rs, s2) = check_trades s1 cs
      in (res # rs, s2))"

text \<open>The public operations of the risk manager, as one step function on its state.\<close>

datatype RiskOp =
    Set_day_start_balance real real
  | Check_trade PositionTracker TradeRequest real real
  | Get_position_multiplier
  | Record_trade_completed bool real
  | Is_trading_allowed real

fun risk_step :: "RiskManager \<Rightarrow> RiskOp \<Rightarrow> RiskManager" where
  "risk_step s (Set_day_start_balance bal now) = set_day_start_balance s bal now"
| "risk_step s (Check_trade t trade bal now) = snd (check_trade s t trade bal now)"
| "risk_step s Get_position_multiplier = s"
| "risk_step s (Record_trade_completed is_win now) = record_trade_completed s is_win now"
| "risk_step s (Is_trading_allowed now) = s"

text \<open>
  Sequences of operations on the risk manager. \<open>wins\<close> counts the win notifications of
  a sequence. A sequence is \<open>calm\<close> from a state when it holds no loss notification and
  no \<^verbatim>\<open>check_trade\<close> call on which the daily-drawdown gate fires (the condition is
  read in the state the call is made in).
\<close>

definition run_ops :: "RiskManager \<Rightarrow> RiskOp list \<Rightarrow> RiskManager" where
  "run_ops s ops = foldl risk_step s ops"

fun is_win :: "RiskOp \<Rightarrow> bool" where
  "is_win (Record_trade_completed w now) = w"
| "is_win _ = False"

fun is_loss :: "RiskOp \<Rightarrow> bool" where
  "is_loss (Record_trade_completed w now) = (\<not> w)"
| "is_loss _ = False"

definition wins :: "RiskOp list \<Rightarrow> int" where
  "wins ops = int (length (filter is_win ops))"

fun op_calm :: "RiskManager \<Rightarrow> RiskOp \<Rightarrow> bool" where
  "op_calm s (Check_trade t trade bal now) = (\<not> drawdown_hit s bal)"
| "op_calm s (Record_trade_completed w now) = w"
| "op_calm s _ = True"

fun calm :: "RiskManager \<Rightarrow> RiskOp list \<Rightarrow> bool" where
  "calm s [] = True"
| "calm s (op # ops) = (op_calm s op \<and> calm (risk_step s op) ops)"



subsection \<open>Double-precision arithmetic\<close>

text \<open>
  The book walk adds, subtracts, multiplies and divides Python floats, and its claim
  compares the results for equality, so there each operation is followed by the
  rounding of IEEE 754 binary64: to the nearest number with a 53-bit significand, ties
  to the even significand, with gradual underflow (the exponent is not taken below
  \<open>-1022\<close>). \<open>rnd x\<close> is the double nearest to the real \<open>x\<close>, and a real is a double
  when rounding leaves it unchanged and it lies below \<open>2 powi 1024\<close>. Overflow to
  infinity, NaN and the sign of zero are not modelled: every result is a real number.
  \<^verbatim>\<open>min\<close> and the comparisons are exact.
\<close>

definition round_even :: "real \<Rightarrow> int" where
  "round_even x =
     (if x - of_int \<lfloor>x\<rfloor> < 1 / 2 then \<lfloor>x\<rfloor>
      else if x - of_int \<lfloor>x\<rfloor> > 1 / 2 then \<lfloor>x\<rfloor> + 1
      else if even \<lfloor>x\<rfloor> then \<lfloor>x\<rfloor> else \<lfloor>x\<rfloor> + 1)"

definition expo :: "real \<Rightarrow> int" where
  "expo x = max \<lfloor>log 2 \<bar>x\<bar>\<rfloor> (- 1022)"

definition ulp :: "real \<Rightarrow> real" where
  "ulp x = 2 powi (expo x - 52)"

definition rnd :: "real \<Rightarrow> real" where
  "rnd x = (if x = 0 then 0 else of_int (round_even (x / ulp x)) * ulp x)"

definition is_double :: "real \<Rightarrow> bool" where
  "is_double x = (rnd x = x \<and> \<bar>x\<bar> < 2 powi 1024)"

subsection \<open>core/book\_analyzer.py\<close>

text \<open>
  A price level is a dict with the keys \<^verbatim>\<open>price\<close> and \<^verbatim>\<open>size\<close>; the walk reads
  both through \<^verbatim>\<open>float(...)\<close>, so the fields of a level stand for doubles.
\<close>

record Level =
  price :: real
  size_lvl :: real

record FillEstimate =
  average_price :: real
  total_filled :: real
  total_cost :: real
  levels_consumed :: int
  fully_fillable :: bool

text \<open>
  The \<^verbatim>\<open>for\<close> loop of \<^verbatim>\<open>walk_book_asks\<close> over (remaining, total\_cost, levels):
  \<^verbatim>\<open>total_cost += fill_qty * price\<close> rounds the product and then the sum,
  \<^verbatim>\<open>remaining -= fill_qty\<close> rounds the difference.
\<close>

fun walk_loop :: "Level list \<Rightarrow> real \<Rightarrow> real \<Rightarrow> int \<Rightarrow> real \<times> real \<times> int" where
  "walk_loop [] remaining cost levels = (remaining, cost, levels)"
| "walk_loop (level # rest) remaining cost levels =
     (if remaining \<le> 0 then (remaining, cost, levels)
      else (let fill_qty = min remaining (size_lvl level)
            in walk_loop rest (rnd (remaining - fill_qty))
                 (rnd (cost + rnd (fill_qty * price level))) (levels + 1)))"

definition walk_book_asks :: "Level list \<Rightarrow> real \<Rightarrow> FillEstimate" where
  "walk_book_asks asks target_size =
     (let (remaining, cost, levels) = walk_loop asks target_size 0 0;
          filled = rnd (target_size - remaining);
          avg_price = (if filled > 0 then rnd (cost / filled) else 0)
      in \<lparr>average_price = avg_price, total_filled = filled, total_cost = cost,
          levels_consumed = levels, fully_fillable = (remaining \<le> 0)\<rparr>)"

text \<open>
  The quantity consumed at each level, in book order, as the specification words it:
  \<open>min(remaining, level.size)\<close> at each level until the target is reached or the levels
  are exhausted, with the remainder kept in doubles as the code keeps it. Levels that
  are not reached consume nothing and are not listed. \<open>remaining_after\<close> is the
  remainder once the listed quantities have been taken off the target one by one, and
  \<open>fsum\<close> the sum of a list of doubles added from left to right.
\<close>

fun consumed_at :: "Level list \<Rightarrow> real \<Rightarrow> real list" where
  "consumed_at [] remaining = []"
| "consumed_at (level # rest) remaining =
     (if remaining \<le> 0 then []
      else min remaining (size_lvl level)
             # consumed_at rest (rnd (remaining - min remaining (size_lvl level))))"

definition remaining_after :: "real \<Rightarrow> real list \<Rightarrow> real" where
  "remaining_after target qs = foldl (\<lambda>r q. rnd (r - q)) target qs"

definition fsum :: "real list \<Rightarrow> real" where
  "fsum xs = foldl (\<lambda>acc x. rnd (acc + x)) 0 xs"

text \<open>
  A book in the range the venue quotes: every price at least \<open>2 powi (- 10)\<close> (the tick
  is 0.001) and every size at least \<open>2 powi (- 100)\<close>.
\<close>

definition book_in_range :: "Level list \<Rightarrow> bool" where
  "book_in_range asks =
     list_all (\<lambda>l. 2 powi (- 10) \<le> price l \<and> 2 powi (- 100) \<le> size_lvl l) asks"

subsection \<open>strategies/resolution\_arb.py: the confirmed external price\<close>

text \<open>
  \<^verbatim>\<open>_fetch_coingecko\<close> and \<^verbatim>\<open>_fetch_binance\<close> each return a float or
  \<^verbatim>\<open>None\<close>; their results are the two arguments. In a condition, \<^verbatim>\<open>None\<close> and
  \<^verbatim>\<open>0.0\<close> are falsy; \<^verbatim>\<open>a or b\<close> is \<open>a\<close> when \<open>a\<close> is truthy and \<open>b\<close> otherwise.
\<close>

definition truthy :: "real option \<Rightarrow> bool" where
  "truthy v = (case v of None \<Rightarrow> False | Some x \<Rightarrow> x \<noteq> 0)"

definition get_btc_price_confirmed :: "real option \<Rightarrow> real option \<Rightarrow> real option" where
  "get_btc_price_confirmed cg_price bn_price =
     (case (cg_price, bn_price) of
        (Some cg, Some bn) \<Rightarrow>
          if cg \<noteq> 0 \<and> bn \<noteq> 0 then
            (let diff_pct = \<bar>cg - bn\<bar> / max cg bn
             in if diff_pct < 0.005 then Some ((cg + bn) / 2) else None)
          else if truthy cg_price then cg_price else bn_price
      | _ \<Rightarrow> if truthy cg_price then cg_price else bn_price)"

subsection \<open>strategies/new\_market\_sniper.py: classification\<close>

datatype Priority = HIGH | STANDARD

text \<open>
  The classification step of \<^verbatim>\<open>_evaluate_market\<close> (source lines 109 to 119) on the
  naive best-ask sum: \<open>None\<close> is the early \<^verbatim>\<open>return\<close>, \<open>Some p\<close> lets the market
  go on to sizing, the book walk, the risk check and the paired order.
\<close>

definition classify_opportunity :: "real \<Rightarrow> Priority option" where
  "classify_opportunity naive_sum =
     (if naive_sum > 0.97 then None
      else if naive_sum \<le> HIGH_PRIORITY_THRESHOLD then Some HIGH
      else Some STANDARD)"

subsection \<open>core/order\_manager.py\<close>

text \<open>
  The fields of \<^verbatim>\<open>OrderTicket\<close> that share a name with an earlier record carry the
  prefix \<open>o_\<close>. The venue is outside the program: what it answers is an argument.
  \<^item> A \<^verbatim>\<open>create_limit_order\<close> attempt answers \<open>Some oid\<close> (the order id read from
    the response) or \<open>None\<close> (it raised); \<open>answers n\<close> is the answer to attempt \<open>n\<close>.
  \<^item> \<^verbatim>\<open>get_open_orders\<close> answers \<open>Some ids\<close> (the ids of the open orders) or
    \<open>None\<close> (it raised).
  \<^item> \<^verbatim>\<open>cancel_order\<close> succeeds (\<open>True\<close>) or raises (\<open>False\<close>).
  What the order manager asks of the venue and what it logs as a warning is returned
  as a list of events. The list \<^verbatim>\<open>_active_orders\<close>, read only by
  \<^verbatim>\<open>cancel_all\<close>, is left out.
\<close>

record OrderTicket =
  o_token_id :: string
  o_side :: string
  o_price :: real
  o_size :: real
  order_id :: "string option"
  status :: string
  submitted_at :: real

record PairedArbOrder =
  yes_leg :: OrderTicket
  no_leg :: OrderTicket

datatype Event =
    Create_limit_order string string real real
  | Cancel_order string
  | Warn_recovery_sell_unfilled string

fun try_submit :: "(nat \<Rightarrow> string option) \<Rightarrow> nat \<Rightarrow> nat \<Rightarrow> string option \<times> nat" where
  "try_submit answers attempt 0 = (None, 0)"
| "try_submit answers attempt (Suc k) =
     (case answers attempt of
        Some oid \<Rightarrow> (Some oid, 1)
      | None \<Rightarrow> (let (r, n) = try_submit answers (Suc attempt) k in (r, Suc n)))"

text \<open>
  \<^verbatim>\<open>place_limit\<close>: attempts 1 to \<^verbatim>\<open>MAX_RETRIES\<close>; the first answer that is not an
  exception makes the ticket \<open>submitted\<close>. One \<open>Create_limit_order\<close> event per attempt.
\<close>

definition place_limit ::
  "(nat \<Rightarrow> string option) \<Rightarrow> string \<Rightarrow> string \<Rightarrow> real \<Rightarrow> real \<Rightarrow> real
     \<Rightarrow> OrderTicket \<times> Event list" where
  "place_limit answers tok sd pr sz now =
     (let ticket = \<lparr>o_token_id = tok, o_side = sd, o_price = pr, o_size = sz,
                     order_id = None, status = ''pending'', submitted_at = 0\<rparr>;
          (r, n) = try_submit answers 1 MAX_RETRIES;
          evs = replicate n (Create_limit_order tok sd pr sz)
      in case r of
           Some oid \<Rightarrow> (ticket\<lparr>order_id := Some oid, status := ''submitted'',
                                 submitted_at := now\<rparr>, evs)
         | None \<Rightarrow> (ticket\<lparr>status := ''failed''\<rparr>, evs))"

text \<open>\<^verbatim>\<open>not ticket.order_id\<close>: \<^verbatim>\<open>None\<close> and the empty string are falsy.\<close>

definition no_order_id :: "OrderTicket \<Rightarrow> bool" where
  "no_order_id ticket = (order_id ticket = None \<or> order_id ticket = Some [])"

definition check_filled :: "OrderTicket \<Rightarrow> string list option \<Rightarrow> bool" where
  "check_filled ticket open_orders =
     (if no_order_id ticket \<or> order_id ticket = Some ''dry-run-placeholder'' then True
      else case open_orders of
             None \<Rightarrow> False
           | Some ids \<Rightarrow> \<not> list_ex (\<lambda>i. Some i = order_id ticket) ids)"

definition cancel_if_submitted :: "OrderTicket \<Rightarrow> (string \<Rightarrow> bool) \<Rightarrow> OrderTicket \<times> Event list" where
  "cancel_if_submitted ticket cancel_ok =
     (case order_id ticket of
        Some oid \<Rightarrow>
          if status ticket = ''submitted'' \<and> oid \<noteq> [] then
            (if cancel_ok oid then (ticket\<lparr>status := ''cancelled''\<rparr>, [Cancel_order oid])
             else (ticket, [Cancel_order oid]))
          else (ticket, [])
      | None \<Rightarrow> (ticket, []))"

text \<open>
  \<^verbatim>\<open>_recover_filled_leg\<close> returns nothing: the model returns the events only.
  \<open>sell_open\<close> is the answer to \<^verbatim>\<open>get_open_orders\<close> after the wait.
\<close>

definition recover_filled_leg ::
  "OrderTicket \<Rightarrow> (nat \<Rightarrow> string option) \<Rightarrow> string list option \<Rightarrow> real \<Rightarrow> Event list" where
  "recover_filled_leg ticket sell_answers sell_open now =
     (let (sell_ticket, evs) =
            place_limit sell_answers (o_token_id ticket) ''SELL'' (o_price ticket) (o_size ticket) now
      in if status sell_ticket = ''submitted'' then
           (if \<not> check_filled sell_ticket sell_open
            then evs @ [Warn_recovery_sell_unfilled (o_token_id ticket)]
            else evs)
         else evs)"

text \<open>
  The \<^verbatim>\<open>while\<close> loop of \<^verbatim>\<open>_monitor_arb_fills\<close>. It runs once per poll made
  before the deadline; \<open>polls\<close> lists, for each round, the venue's answers to the
  open-orders query of the YES check and of the NO check. The third component of
  the result says that the loop left through its \<^verbatim>\<open>return\<close> (both legs filled).
\<close>

fun monitor_loop ::
  "PairedArbOrder \<Rightarrow> (string list option \<times> string list option) list \<Rightarrow> bool \<Rightarrow> bool
     \<Rightarrow> bool \<times> bool \<times> bool" where
  "monitor_loop pair [] yes_filled no_filled = (yes_filled, no_filled, False)"
| "monitor_loop pair ((yes_open, no_open) # polls) yes_filled no_filled =
     (let yf = (if \<not> yes_filled then check_filled (yes_leg pair) yes_open else yes_filled);
          nf = (if \<not> no_filled then check_filled (no_leg pair) no_open else no_filled)
      in if yf \<and> nf then (True, True, True) else monitor_loop pair polls yf nf)"

definition monitor_arb_fills ::
  "PairedArbOrder \<Rightarrow> (string list option \<times> string list option) list \<Rightarrow> (string \<Rightarrow> bool)
     \<Rightarrow> (nat \<Rightarrow> string option) \<Rightarrow> string list option \<Rightarrow> real
     \<Rightarrow> PairedArbOrder \<times> Event list" where
  "monitor_arb_fills pair polls cancel_ok sell_answers sell_open now =
     (let (yes_filled, no_filled, returned) = monitor_loop pair polls False False in
      if returned then
        (\<lparr>yes_leg = (yes_leg pair)\<lparr>status := ''filled''\<rparr>,
          no_leg = (no_leg pair)\<lparr>status := ''filled''\<rparr>\<rparr>, [])
      else if yes_filled \<and> \<not> no_filled then
        (let (nl, evs1) = cancel_if_submitted (no_leg pair) cancel_ok;
             yl = (yes_leg pair)\<lparr>status := ''filled''\<rparr>;
             evs2 = recover_filled_leg yl sell_answers sell_open now
         in (\<lparr>yes_leg = yl, no_leg = nl\<lparr>status := ''cancelled''\<rparr>\<rparr>, evs1 @ evs2))
      else if no_filled \<and> \<not> yes_filled then
        (let (yl, evs1) = cancel_if_submitted (yes_leg pair) cancel_ok;
             nl = (no_leg pair)\<lparr>status := ''filled''\<rparr>;
             evs2 = recover_filled_leg nl sell_answers sell_open now
         in (\<lparr>yes_leg = yl\<lparr>status := ''cancelled''\<rparr>, no_leg = nl\<rparr>, evs1 @ evs2))
      else
        (let (yl, evs1) = cancel_if_submitted (yes_leg pair) cancel_ok;
             (nl, evs2) = cancel_if_submitted (no_leg pair) cancel_ok
         in (\<lparr>yes_leg = yl\<lparr>status := ''cancelled''\<rparr>,
              no_leg = nl\<lparr>status := ''cancelled''\<rparr>\<rparr>, evs1 @ evs2)))"

text \<open>
  \<^verbatim>\<open>place_arb_pair\<close>. The two submissions run under \<^verbatim>\<open>asyncio.gather\<close>; the model
  lists the events of the YES leg first. \<open>dry_run\<close> is \<^verbatim>\<open>config.DRY_RUN\<close>.
\<close>

definition place_arb_pair ::
  "bool \<Rightarrow> (nat \<Rightarrow> string option) \<Rightarrow> (nat \<Rightarrow> string option)
     \<Rightarrow> (string list option \<times> string list option) list \<Rightarrow> (string \<Rightarrow> bool)
     \<Rightarrow> (nat \<Rightarrow> string option) \<Rightarrow> string list option
     \<Rightarrow> string \<Rightarrow> string \<Rightarrow> real \<Rightarrow> real \<Rightarrow> real \<Rightarrow> real
     \<Rightarrow> PairedArbOrder \<times> Event list" where
  "place_arb_pair dry_run yes_answers no_answers polls cancel_ok sell_answers sell_open
       yes_token_id no_token_id yes_price no_price sz now =
     (let (yl, evs_y) = place_limit yes_answers yes_token_id ''BUY'' yes_price sz now;
          (nl, evs_n) = place_limit no_answers no_token_id ''BUY'' no_price sz now
      in if status yl = ''failed'' \<or> status nl = ''failed'' then
           (let (yl1, evs1) = cancel_if_submitted yl cancel_ok;
                (nl1, evs2) = cancel_if_submitted nl cancel_ok
            in (\<lparr>yes_leg = yl1, no_leg = nl1\<rparr>, evs_y @ evs_n @ evs1 @ evs2))
         else if dry_run then
           (\<lparr>yes_leg = yl\<lparr>status := ''filled''\<rparr>, no_leg = nl\<lparr>status := ''filled''\<rparr>\<rparr>,
            evs_y @ evs_n)
         else
           (let (pair, evs) =
                  monitor_arb_fills \<lparr>yes_leg = yl, no_leg = nl\<rparr> polls cancel_ok
                    sell_answers sell_open now
            in (pair, evs_y @ evs_n @ evs)))"

subsection \<open>strategies/sum\_to\_one\_arb.py: bookkeeping after the paired order\<close>

definition STRATEGY_NAME :: string where
  "STRATEGY_NAME = ''sum_to_one_arb''"

text \<open>
  Source lines 178 to 215 of \<^verbatim>\<open>_evaluate_market\<close>: what is written to the ledger and
  to the risk manager once \<^verbatim>\<open>place_arb_pair\<close> has returned \<open>pair\<close>. The first
  component of the result is the record handed to the journal
  (\<^verbatim>\<open>self._pnl.record_trade\<close>), if any.
\<close>

definition track_positions ::
  "PositionTracker \<Rightarrow> RiskManager \<Rightarrow> PairedArbOrder \<Rightarrow> string \<Rightarrow> string \<Rightarrow> string \<Rightarrow> string
     \<Rightarrow> real \<Rightarrow> real \<Rightarrow> real \<Rightarrow> real \<Rightarrow> real \<Rightarrow> real
     \<Rightarrow> TradeRecord option \<times> PositionTracker \<times> RiskManager" where
  "track_positions t risk pair yes_id no_id condition_id question
       yes_avg no_avg estimated_shares balance total_profit now =
     (let t1 = (if status (yes_leg pair) = ''filled''
                then snd (open_position t yes_id condition_id question ''YES'' yes_avg
                            estimated_shares STRATEGY_NAME now)
                else t);
          t2 = (if status (no_leg pair) = ''filled''
                then snd (open_position t1 no_id condition_id question ''NO'' no_avg
                            estimated_shares STRATEGY_NAME now)
                else t1)
      in if status (yes_leg pair) = ''filled'' \<and> status (no_leg pair) = ''filled'' then
           (let new_balance = balance + total_profit;
                (yes_record, t3) = close_position t2 yes_id 1 new_balance 0 now;
                (no_record, t4) = close_position t3 no_id 0 new_balance 0 now
            in (yes_record, t4,
                if yes_record \<noteq> None then record_trade_completed risk True now else risk))
         else (None, t2, risk))"

section \<open>Verification\<close>

subsection \<open>Unfolding sets for evaluation at concrete inputs\<close>

lemmas config_defs =
  ARB_THRESHOLD_def HIGH_PRIORITY_THRESHOLD_def MAX_TRADE_USD_def MIN_TRADE_USD_def
  MAX_POSITION_PCT_def MAX_TOTAL_EXPOSURE_PCT_def MAX_CONSECUTIVE_LOSSES_def
  MAX_DAILY_DRAWDOWN_PCT_def MAX_SINGLE_LOSS_PCT_def COOLDOWN_MINUTES_def
  RECOVERY_POSITION_MULTIPLIER_def RECOVERY_TRADE_COUNT_def MAX_STRATEGY_EXPOSURE_PCT_def
  MAX_RETRIES_def

lemmas ledger_eval =
  run_ledger_def new_tracker_def open_position_def close_position_def find_open_def
  is_open_def pnl_def pnl_pct_def or_zero_def cost_basis_def open_positions_def Let_def
  trailing_losses_def trailing_wins_def

lemmas risk_eval =
  check_trade_def size_gates_def drawdown_hit_def enter_cooldown_def enter_recovery_def
  get_position_multiplier_def record_trade_completed_def set_day_start_balance_def
  new_risk_manager_def cost_usd_def total_exposure_def strategy_exposure_def py_int_def
  Let_def

lemmas order_eval =
  place_arb_pair_def place_limit_def MAX_RETRIES_def numeral_3_eq_3 cancel_if_submitted_def
  monitor_arb_fills_def recover_filled_leg_def check_filled_def no_order_id_def
  track_positions_def STRATEGY_NAME_def

subsection \<open>The ledger\<close>

lemma find_open_in_None:
  "(find_open_in ps tok = None) = (\<forall>p\<in>set ps. \<not> (token_id p = tok \<and> is_open p))"
  by (induction ps) (auto split: option.splits)

lemma find_open_in_Some:
  "find_open_in ps tok = Some i \<Longrightarrow>
     i < length ps \<and> token_id (ps ! i) = tok \<and> is_open (ps ! i) \<and>
     (\<forall>j. i < j \<and> j < length ps \<longrightarrow> \<not> (token_id (ps ! j) = tok \<and> is_open (ps ! j)))"
proof (induction ps arbitrary: i)
  case Nil
  then show ?case by simp
next
  case (Cons p ps)
  show ?case
  proof (cases "find_open_in ps tok")
    case None
    with Cons.prems have i0: "i = 0" and m: "token_id p = tok \<and> is_open p"
      by (auto split: if_splits)
    from None have "\<forall>q\<in>set ps. \<not> (token_id q = tok \<and> is_open q)"
      by (simp add: find_open_in_None)
    then have "\<forall>j. 0 < j \<and> j < length (p # ps) \<longrightarrow> \<not> (token_id ((p # ps) ! j) = tok \<and> is_open ((p # ps) ! j))"
      by (auto simp: nth_Cons split: nat.splits)
    with i0 m show ?thesis by simp
  next
    case (Some k)
    with Cons.prems have ik: "i = Suc k" by simp
    from Cons.IH[OF Some] have IH: "k < length ps" "token_id (ps ! k) = tok" "is_open (ps ! k)"
      "\<forall>j. k < j \<and> j < length ps \<longrightarrow> \<not> (token_id (ps ! j) = tok \<and> is_open (ps ! j))"
      by auto
    have "\<forall>j. Suc k < j \<and> j < length (p # ps) \<longrightarrow> \<not> (token_id ((p # ps) ! j) = tok \<and> is_open ((p # ps) ! j))"
    proof (intro allI impI)
      fix j assume a: "Suc k < j \<and> j < length (p # ps)"
      then obtain j' where j': "j = Suc j'" by (cases j) auto
      with a IH(4) show "\<not> (token_id ((p # ps) ! j) = tok \<and> is_open ((p # ps) ! j))" by auto
    qed
    with ik IH show ?thesis by simp
  qed
qed

lemma find_open_in_snoc:
  "find_open_in (ps @ [p]) tok =
     (if token_id p = tok \<and> is_open p then Some (length ps) else find_open_in ps tok)"
  by (induction ps) (auto split: option.splits)


lemma close_position_None:
  "find_open t tok = None \<Longrightarrow> close_position t tok x b ph now = (None, t)"
  by (simp add: close_position_def)

lemma close_position_Some:
  assumes "find_open t tok = Some i"
  shows "\<exists>r t'. close_position t tok x b ph now = (Some r, t') \<and>
           pnl_usd r = (x - entry_price (positions t ! i)) * size_shares (positions t ! i) \<and>
           r_exit_price r = x \<and> r_entry_price r = entry_price (positions t ! i) \<and>
           r_side r = side (positions t ! i) \<and> r_strategy r = strategy (positions t ! i) \<and>
           market_name r = market_question (positions t ! i) \<and>
           size_usd r = cost_basis (positions t ! i) \<and> balance_after r = b \<and> phase r = ph \<and>
           timestamp r = now \<and>
           positions t' =
             (positions t)[i := (positions t ! i)\<lparr>exit_price := Some x, closed_at := Some now\<rparr>] \<and>
           trade_history t' = trade_history t @ [r] \<and>
           (if pnl_usd r \<ge> 0
            then consecutive_wins t' = consecutive_wins t + 1 \<and> consecutive_losses t' = 0 \<and>
                 max_win_streak t' = max (max_win_streak t) (consecutive_wins t + 1) \<and>
                 max_loss_streak t' = max_loss_streak t
            else consecutive_losses t' = consecutive_losses t + 1 \<and> consecutive_wins t' = 0 \<and>
                 max_loss_streak t' = max (max_loss_streak t) (consecutive_losses t + 1) \<and>
                 max_win_streak t' = max_win_streak t)"
  using assms
  by (simp add: close_position_def Let_def or_zero_def pnl_def cost_basis_def)

lemma streaks_ok_new: "streaks_ok new_tracker"
  by (simp add: streaks_ok_def new_tracker_def trailing_losses_def trailing_wins_def)

lemma streaks_ok_open:
  "streaks_ok t \<Longrightarrow> streaks_ok (snd (open_position t tok mid q sd e sz st now))"
  by (simp add: streaks_ok_def open_position_def Let_def)

lemma streaks_ok_close:
  assumes "streaks_ok t"
  shows "streaks_ok (snd (close_position t tok x b ph now))"
proof (cases "find_open t tok")
  case None
  with assms show ?thesis by (simp add: close_position_None)
next
  case (Some i)
  from close_position_Some[OF Some, of x b ph now] obtain r t' where
    c: "close_position t tok x b ph now = (Some r, t')" and
    h: "trade_history t' = trade_history t @ [r]" and
    s: "if pnl_usd r \<ge> 0
        then consecutive_wins t' = consecutive_wins t + 1 \<and> consecutive_losses t' = 0 \<and>
             max_win_streak t' = max (max_win_streak t) (consecutive_wins t + 1) \<and>
             max_loss_streak t' = max_loss_streak t
        else consecutive_losses t' = consecutive_losses t + 1 \<and> consecutive_wins t' = 0 \<and>
             max_loss_streak t' = max (max_loss_streak t) (consecutive_losses t + 1) \<and>
             max_win_streak t' = max_win_streak t"
    by blast
  from assms h s have "streaks_ok t'"
    by (auto simp: streaks_ok_def trailing_losses_def trailing_wins_def split: if_splits)
  with c show ?thesis by simp
qed

lemma streaks_ok_foldl:
  "streaks_ok t \<Longrightarrow> streaks_ok (foldl ledger_step t ops)"
proof (induction ops arbitrary: t)
  case Nil
  then show ?case by simp
next
  case (Cons a ops)
  have "streaks_ok (ledger_step t a)"
    using Cons.prems by (cases a) (simp_all add: streaks_ok_open streaks_ok_close)
  then show ?case using Cons.IH by simp
qed


text \<open>
  Claim C8. A close whose record has \<open>pnl \<ge> 0\<close> adds one to \<open>consecutive_wins\<close> and
  sets \<open>consecutive_losses\<close> to zero; a close with negative pnl adds one to
  \<open>consecutive_losses\<close> and sets \<open>consecutive_wins\<close> to zero; no close lowers a peak
  streak; and after any sequence of opens and closes on a fresh ledger
  \<open>consecutive_losses\<close> is the length of the trailing run of negative-pnl records of
  the trade history, \<open>consecutive_wins\<close> the length of the trailing run of
  non-negative ones, each bounded by its peak.
\<close>

theorem streak_counters:
  "(\<forall>r t'. close_position t tok x b ph now = (Some r, t') \<and> pnl_usd r \<ge> 0 \<longrightarrow>
       consecutive_wins t' = consecutive_wins t + 1 \<and> consecutive_losses t' = 0) \<and>
   (\<forall>r t'. close_position t tok x b ph now = (Some r, t') \<and> pnl_usd r < 0 \<longrightarrow>
       consecutive_losses t' = consecutive_losses t + 1 \<and> consecutive_wins t' = 0) \<and>
   max_win_streak t \<le> max_win_streak (snd (close_position t tok x b ph now)) \<and>
   max_loss_streak t \<le> max_loss_streak (snd (close_position t tok x b ph now)) \<and>
   consecutive_losses (run_ledger ops) = trailing_losses (trade_history (run_ledger ops)) \<and>
   consecutive_wins (run_ledger ops) = trailing_wins (trade_history (run_ledger ops)) \<and>
   consecutive_wins (run_ledger ops) \<le> max_win_streak (run_ledger ops) \<and>
   consecutive_losses (run_ledger ops) \<le> max_loss_streak (run_ledger ops)"
proof -
  have step: "(\<forall>r t'. close_position t tok x b ph now = (Some r, t') \<and> pnl_usd r \<ge> 0 \<longrightarrow>
       consecutive_wins t' = consecutive_wins t + 1 \<and> consecutive_losses t' = 0) \<and>
   (\<forall>r t'. close_position t tok x b ph now = (Some r, t') \<and> pnl_usd r < 0 \<longrightarrow>
       consecutive_losses t' = consecutive_losses t + 1 \<and> consecutive_wins t' = 0) \<and>
   max_win_streak t \<le> max_win_streak (snd (close_position t tok x b ph now)) \<and>
   max_loss_streak t \<le> max_loss_streak (snd (close_position t tok x b ph now))"
  proof (cases "find_open t tok")
    case None
    then show ?thesis by (simp add: close_position_None)
  next
    case (Some i)
    from close_position_Some[OF Some, of x b ph now] show ?thesis
      by (auto split: if_splits)
  qed
  have "streaks_ok (run_ledger ops)"
    unfolding run_ledger_def by (rule streaks_ok_foldl[OF streaks_ok_new])
  then have run: "consecutive_losses (run_ledger ops) = trailing_losses (trade_history (run_ledger ops)) \<and>
   consecutive_wins (run_ledger ops) = trailing_wins (trade_history (run_ledger ops)) \<and>
   consecutive_wins (run_ledger ops) \<le> max_win_streak (run_ledger ops) \<and>
   consecutive_losses (run_ledger ops) \<le> max_loss_streak (run_ledger ops)"
    by (simp add: streaks_ok_def)
  from step run show ?thesis by blast
qed

theorem streak_counters_witness:
  "close_position (run_ledger [Open_position ''A'' ''m'' ''q'' ''YES'' 0.4 10 ''s'' 0]) ''A'' 1 104 0 5
     = (Some \<lparr>timestamp = 5, r_strategy = ''s'', market_name = ''q'', r_side = ''YES'',
               r_entry_price = 0.4, r_exit_price = 1, size_usd = 4, pnl_usd = 6,
               r_pnl_pct = 1.5, balance_after = 104, phase = 0\<rparr>,
        run_ledger [Open_position ''A'' ''m'' ''q'' ''YES'' 0.4 10 ''s'' 0,
                    Close_position ''A'' 1 104 0 5]) \<and>
   consecutive_wins (run_ledger [Open_position ''A'' ''m'' ''q'' ''YES'' 0.4 10 ''s'' 0,
                    Close_position ''A'' 1 104 0 5]) = 1 \<and>
   consecutive_losses (run_ledger [Open_position ''A'' ''m'' ''q'' ''YES'' 0.4 10 ''s'' 0,
                    Close_position ''A'' 1 104 0 5]) = 0 \<and>
   trailing_wins (trade_history (run_ledger [Open_position ''A'' ''m'' ''q'' ''YES'' 0.4 10 ''s'' 0,
                    Close_position ''A'' 1 104 0 5])) = 1 \<and>
   map pnl_usd (trade_history (snd (close_position
       (run_ledger [Open_position ''A'' ''m'' ''q'' ''YES'' 0.4 10 ''s'' 0]) ''A'' 0 96 0 5))) = [- 4] \<and>
   consecutive_losses (snd (close_position
       (run_ledger [Open_position ''A'' ''m'' ''q'' ''YES'' 0.4 10 ''s'' 0]) ''A'' 0 96 0 5)) = 1 \<and>
   consecutive_wins (snd (close_position
       (run_ledger [Open_position ''A'' ''m'' ''q'' ''YES'' 0.4 10 ''s'' 0]) ''A'' 0 96 0 5)) = 0"
  using streak_counters[of "run_ledger [Open_position ''A'' ''m'' ''q'' ''YES'' 0.4 10 ''s'' 0]"
      "''A''" 1 104 0 5
      "[Open_position ''A'' ''m'' ''q'' ''YES'' 0.4 10 ''s'' 0, Close_position ''A'' 1 104 0 5]"]
    streak_counters[of "run_ledger [Open_position ''A'' ''m'' ''q'' ''YES'' 0.4 10 ''s'' 0]"
      "''A''" 0 96 0 5 "[]"]
  by (simp add: ledger_eval)

text \<open>
  Claim C9. When no position with the token id is still open, \<open>close_position\<close>
  returns nothing and the ledger it returns is the ledger it was given (so every query
  answers as before). When there is one, the call closes the position at the largest
  index among the open positions with that token (the one opened last), appends one
  trade record built from that position to the history, and the position list is the
  old list with that one entry updated.
\<close>

theorem close_position_contract:
  "((\<forall>p\<in>set (positions t). \<not> (token_id p = tok \<and> is_open p)) \<longrightarrow>
      close_position t tok x b ph now = (None, t) \<and>
      total_exposure (snd (close_position t tok x b ph now)) = total_exposure t \<and>
      strategy_exposure (snd (close_position t tok x b ph now)) strat = strategy_exposure t strat) \<and>
   ((\<exists>p\<in>set (positions t). token_id p = tok \<and> is_open p) \<longrightarrow>
      (\<exists>i r t'. close_position t tok x b ph now = (Some r, t') \<and>
         i < length (positions t) \<and>
         token_id (positions t ! i) = tok \<and> is_open (positions t ! i) \<and>
         (\<forall>j. i < j \<and> j < length (positions t) \<longrightarrow>
               \<not> (token_id (positions t ! j) = tok \<and> is_open (positions t ! j))) \<and>
         positions t' =
           (positions t)[i := (positions t ! i)\<lparr>exit_price := Some x, closed_at := Some now\<rparr>] \<and>
         trade_history t' = trade_history t @ [r] \<and>
         r_entry_price r = entry_price (positions t ! i) \<and> r_exit_price r = x \<and>
         pnl_usd r = (x - entry_price (positions t ! i)) * size_shares (positions t ! i) \<and>
         r_strategy r = strategy (positions t ! i) \<and> r_side r = side (positions t ! i) \<and>
         balance_after r = b \<and> phase r = ph))"
proof (cases "find_open t tok")
  case None
  then have no: "\<forall>p\<in>set (positions t). \<not> (token_id p = tok \<and> is_open p)"
    by (simp add: find_open_def find_open_in_None)
  from None have "close_position t tok x b ph now = (None, t)"
    by (rule close_position_None)
  with no show ?thesis by simp
next
  case (Some i)
  then have ex: "\<not> (\<forall>p\<in>set (positions t). \<not> (token_id p = tok \<and> is_open p))"
    using find_open_in_None[of "positions t" tok] by (simp add: find_open_def)
  from Some have idx: "i < length (positions t) \<and>
     token_id (positions t ! i) = tok \<and> is_open (positions t ! i) \<and>
     (\<forall>j. i < j \<and> j < length (positions t) \<longrightarrow>
           \<not> (token_id (positions t ! j) = tok \<and> is_open (positions t ! j)))"
    unfolding find_open_def by (rule find_open_in_Some)
  from close_position_Some[OF Some, of x b ph now] obtain r t' where
    "close_position t tok x b ph now = (Some r, t')"
    "positions t' =
       (positions t)[i := (positions t ! i)\<lparr>exit_price := Some x, closed_at := Some now\<rparr>]"
    "trade_history t' = trade_history t @ [r]"
    "r_entry_price r = entry_price (positions t ! i)" "r_exit_price r = x"
    "pnl_usd r = (x - entry_price (positions t ! i)) * size_shares (positions t ! i)"
    "r_strategy r = strategy (positions t ! i)" "r_side r = side (positions t ! i)"
    "balance_after r = b" "phase r = ph"
    by blast
  with idx have "\<exists>i r t'. close_position t tok x b ph now = (Some r, t') \<and>
         i < length (positions t) \<and>
         token_id (positions t ! i) = tok \<and> is_open (positions t ! i) \<and>
         (\<forall>j. i < j \<and> j < length (positions t) \<longrightarrow>
               \<not> (token_id (positions t ! j) = tok \<and> is_open (positions t ! j))) \<and>
         positions t' =
           (positions t)[i := (positions t ! i)\<lparr>exit_price := Some x, closed_at := Some now\<rparr>] \<and>
         trade_history t' = trade_history t @ [r] \<and>
         r_entry_price r = entry_price (positions t ! i) \<and> r_exit_price r = x \<and>
         pnl_usd r = (x - entry_price (positions t ! i)) * size_shares (positions t ! i) \<and>
         r_strategy r = strategy (positions t ! i) \<and> r_side r = side (positions t ! i) \<and>
         balance_after r = b \<and> phase r = ph"
    by blast
  with ex show ?thesis by blast
qed


theorem close_position_contract_witness:
  "close_position
     (run_ledger [Open_position ''A'' ''m'' ''q'' ''YES'' 0.4 10 ''s'' 0,
                  Open_position ''A'' ''m'' ''q'' ''YES'' 0.5 10 ''s'' 1,
                  Open_position ''B'' ''m'' ''q'' ''NO'' 0.3 10 ''s'' 2]) ''Z'' 1 100 0 9
     = (None, run_ledger [Open_position ''A'' ''m'' ''q'' ''YES'' 0.4 10 ''s'' 0,
                  Open_position ''A'' ''m'' ''q'' ''YES'' 0.5 10 ''s'' 1,
                  Open_position ''B'' ''m'' ''q'' ''NO'' 0.3 10 ''s'' 2]) \<and>
   map exit_price (positions (snd (close_position
     (run_ledger [Open_position ''A'' ''m'' ''q'' ''YES'' 0.4 10 ''s'' 0,
                  Open_position ''A'' ''m'' ''q'' ''YES'' 0.5 10 ''s'' 1,
                  Open_position ''B'' ''m'' ''q'' ''NO'' 0.3 10 ''s'' 2]) ''A'' 1 100 0 9)))
     = [None, Some 1, None] \<and>
   map pnl_usd (trade_history (snd (close_position
     (run_ledger [Open_position ''A'' ''m'' ''q'' ''YES'' 0.4 10 ''s'' 0,
                  Open_position ''A'' ''m'' ''q'' ''YES'' 0.5 10 ''s'' 1,
                  Open_position ''B'' ''m'' ''q'' ''NO'' 0.3 10 ''s'' 2]) ''A'' 1 100 0 9)))
     = [5]"
  using close_position_contract[of
      "run_ledger [Open_position ''A'' ''m'' ''q'' ''YES'' 0.4 10 ''s'' 0,
                  Open_position ''A'' ''m'' ''q'' ''YES'' 0.5 10 ''s'' 1,
                  Open_position ''B'' ''m'' ''q'' ''NO'' 0.3 10 ''s'' 2]" "''Z''" 1 100 0 9 "''s''"]
    close_position_contract[of
      "run_ledger [Open_position ''A'' ''m'' ''q'' ''YES'' 0.4 10 ''s'' 0,
                  Open_position ''A'' ''m'' ''q'' ''YES'' 0.5 10 ''s'' 1,
                  Open_position ''B'' ''m'' ''q'' ''NO'' 0.3 10 ''s'' 2]" "''A''" 1 100 0 9 "''s''"]
  by (simp add: ledger_eval)

lemma find_open_snoc2:
  "tok \<noteq> token_id q \<Longrightarrow> token_id p = tok \<Longrightarrow> is_open p \<Longrightarrow>
     find_open_in (ps @ [p, q]) tok = Some (length ps)"
  using find_open_in_snoc[of "ps @ [p]" q tok] find_open_in_snoc[of ps p tok] by simp

subsection \<open>Sum-to-one bookkeeping\<close>

text \<open>
  Claim C10. When both legs of a sum-to-one pair are filled, with distinct token ids, a
  positive share count, a positive NO entry price and entry prices summing below 1,
  the bookkeeping closes the YES leg at 1 with non-negative pnl and then the NO leg at
  0 with negative pnl: the history gains these two records, and afterwards
  \<open>consecutive_wins = 0\<close> and \<open>consecutive_losses = 1\<close>, whatever the counters were.
\<close>

theorem arb_pair_leaves_trailing_loss:
  assumes filled: "status (yes_leg pair) = ''filled''" "status (no_leg pair) = ''filled''"
    and ids: "yes_id \<noteq> no_id"
    and prices: "0 < no_avg" "yes_avg + no_avg < 1"
    and shares: "0 < estimated_shares"
  shows "\<exists>yes_record no_record t' risk'.
           track_positions t risk pair yes_id no_id condition_id question
             yes_avg no_avg estimated_shares balance total_profit now
             = (Some yes_record, t', risk') \<and>
           trade_history t' = trade_history t @ [yes_record, no_record] \<and>
           r_side yes_record = ''YES'' \<and> r_exit_price yes_record = 1 \<and>
           pnl_usd yes_record = (1 - yes_avg) * estimated_shares \<and> pnl_usd yes_record \<ge> 0 \<and>
           r_side no_record = ''NO'' \<and> r_exit_price no_record = 0 \<and>
           pnl_usd no_record = (0 - no_avg) * estimated_shares \<and> pnl_usd no_record < 0 \<and>
           consecutive_wins t' = 0 \<and> consecutive_losses t' = 1"
proof -
  define py where "py = \<lparr>token_id = yes_id, market_id = condition_id, market_question = question,
     side = ''YES'', entry_price = yes_avg, size_shares = estimated_shares,
     strategy = STRATEGY_NAME, opened_at = now, exit_price = None, closed_at = None\<rparr>"
  define pn where "pn = \<lparr>token_id = no_id, market_id = condition_id, market_question = question,
     side = ''NO'', entry_price = no_avg, size_shares = estimated_shares,
     strategy = STRATEGY_NAME, opened_at = now, exit_price = None, closed_at = None\<rparr>"
  define t2 where "t2 = t\<lparr>positions := positions t @ [py, pn]\<rparr>"
  have fy: "find_open t2 yes_id = Some (length (positions t))"
    unfolding find_open_def t2_def using ids
    by (simp add: find_open_snoc2 py_def pn_def is_open_def)
  from close_position_Some[OF fy, of 1 "balance + total_profit" 0 now]
  obtain ry t3 where
    c3: "close_position t2 yes_id 1 (balance + total_profit) 0 now = (Some ry, t3)" and
    ry: "pnl_usd ry = (1 - yes_avg) * estimated_shares" "r_exit_price ry = 1"
        "r_side ry = ''YES''" and
    p3: "positions t3 = positions t @ [py\<lparr>exit_price := Some 1, closed_at := Some now\<rparr>, pn]" and
    h3: "trade_history t3 = trade_history t @ [ry]" and
    s3: "if pnl_usd ry \<ge> 0
         then consecutive_wins t3 = consecutive_wins t2 + 1 \<and> consecutive_losses t3 = 0
         else consecutive_losses t3 = consecutive_losses t2 + 1 \<and> consecutive_wins t3 = 0"
    by (auto simp: t2_def py_def pn_def split: if_splits)
  have "yes_avg < 1" using prices by simp
  with shares have ry_pos: "pnl_usd ry \<ge> 0" by (simp add: ry(1))
  with s3 have l3: "consecutive_losses t3 = 0" by simp
  have fn: "find_open t3 no_id = Some (Suc (length (positions t)))"
    unfolding find_open_def p3
    using find_open_in_snoc[of "positions t @ [py\<lparr>exit_price := Some 1, closed_at := Some now\<rparr>]" pn no_id]
    by (simp add: pn_def is_open_def)
  from close_position_Some[OF fn, of 0 "balance + total_profit" 0 now]
  obtain rn t4 where
    c4: "close_position t3 no_id 0 (balance + total_profit) 0 now = (Some rn, t4)" and
    rn: "pnl_usd rn = (0 - no_avg) * estimated_shares" "r_exit_price rn = 0"
        "r_side rn = ''NO''" and
    h4: "trade_history t4 = trade_history t3 @ [rn]" and
    s4: "if pnl_usd rn \<ge> 0
         then consecutive_wins t4 = consecutive_wins t3 + 1 \<and> consecutive_losses t4 = 0
         else consecutive_losses t4 = consecutive_losses t3 + 1 \<and> consecutive_wins t4 = 0"
    by (auto simp: p3 pn_def nth_append split: if_splits)
  have rn_neg: "pnl_usd rn < 0"
    using prices(1) shares by (simp add: rn(1))
  with s4 l3 have st: "consecutive_wins t4 = 0" "consecutive_losses t4 = 1" by simp_all
  have tp: "track_positions t risk pair yes_id no_id condition_id question
             yes_avg no_avg estimated_shares balance total_profit now
             = (Some ry, t4, record_trade_completed risk True now)"
    using filled c3 c4
    by (simp add: track_positions_def open_position_def Let_def t2_def py_def pn_def)
  from tp h3 h4 ry rn ry_pos rn_neg st show ?thesis by simp
qed


theorem arb_pair_leaves_trailing_loss_witness:
  "status (yes_leg (fst (place_arb_pair True (\<lambda>n. Some ''dry-run-placeholder'')
       (\<lambda>n. Some ''dry-run-placeholder'') [] (\<lambda>oid. True) (\<lambda>n. None) None
       ''Y'' ''N'' 0.48 0.5 200 0))) = ''filled'' \<and>
   status (no_leg (fst (place_arb_pair True (\<lambda>n. Some ''dry-run-placeholder'')
       (\<lambda>n. Some ''dry-run-placeholder'') [] (\<lambda>oid. True) (\<lambda>n. None) None
       ''Y'' ''N'' 0.48 0.5 200 0))) = ''filled'' \<and>
   ''Y'' \<noteq> ''N'' \<and> (0::real) < 0.5 \<and> (0.48::real) + 0.5 < 1 \<and> (0::real) < 200 \<and>
   map pnl_usd (trade_history (fst (snd (track_positions new_tracker (new_risk_manager 0)
       (fst (place_arb_pair True (\<lambda>n. Some ''dry-run-placeholder'')
          (\<lambda>n. Some ''dry-run-placeholder'') [] (\<lambda>oid. True) (\<lambda>n. None) None
          ''Y'' ''N'' 0.48 0.5 200 0))
       ''Y'' ''N'' ''c'' ''q'' 0.48 0.5 200 1000 2 0)))) = [104, - 100] \<and>
   consecutive_wins (fst (snd (track_positions new_tracker (new_risk_manager 0)
       (fst (place_arb_pair True (\<lambda>n. Some ''dry-run-placeholder'')
          (\<lambda>n. Some ''dry-run-placeholder'') [] (\<lambda>oid. True) (\<lambda>n. None) None
          ''Y'' ''N'' 0.48 0.5 200 0))
       ''Y'' ''N'' ''c'' ''q'' 0.48 0.5 200 1000 2 0))) = 0 \<and>
   consecutive_losses (fst (snd (track_positions new_tracker (new_risk_manager 0)
       (fst (place_arb_pair True (\<lambda>n. Some ''dry-run-placeholder'')
          (\<lambda>n. Some ''dry-run-placeholder'') [] (\<lambda>oid. True) (\<lambda>n. None) None
          ''Y'' ''N'' 0.48 0.5 200 0))
       ''Y'' ''N'' ''c'' ''q'' 0.48 0.5 200 1000 2 0))) = 1"
  using arb_pair_leaves_trailing_loss[of
      "fst (place_arb_pair True (\<lambda>n. Some ''dry-run-placeholder'')
          (\<lambda>n. Some ''dry-run-placeholder'') [] (\<lambda>oid. True) (\<lambda>n. None) None
          ''Y'' ''N'' 0.48 0.5 200 0)"
      "''Y''" "''N''" "0.5" "0.48" 200 new_tracker "new_risk_manager 0" "''c''" "''q''" 1000 2 0]
  by (simp add: ledger_eval order_eval)


subsection \<open>The risk manager\<close>









lemma check_trade_before_deadline:
  assumes "state s = COOLDOWN" "now < cooldown_until s"
  shows "check_trade s t trade bal now =
           ((False, In_cooldown (py_int (cooldown_until s - now))),
            s\<lparr>last_known_balance := bal\<rparr>)"
  using assms by (simp add: check_trade_def Let_def)

lemma check_trades_before_deadline:
  assumes "state s = COOLDOWN"
    and "list_all (\<lambda>(t, trade, bal, now). now < cooldown_until s) calls"
  shows "list_all (\<lambda>r. \<exists>n. r = (False, In_cooldown n)) (fst (check_trades s calls)) \<and>
         length (fst (check_trades s calls)) = length calls \<and>
         state (snd (check_trades s calls)) = COOLDOWN \<and>
         cooldown_until (snd (check_trades s calls)) = cooldown_until s \<and>
         recovery_trades_remaining (snd (check_trades s calls)) = recovery_trades_remaining s \<and>
         day_start_balance (snd (check_trades s calls)) = day_start_balance s"
  using assms
proof (induction calls arbitrary: s)
  case Nil
  then show ?case by simp
next
  case (Cons c calls)
  obtain t trade bal now where c: "c = (t, trade, bal, now)" by (cases c) auto
  let ?s1 = "s\<lparr>last_known_balance := bal\<rparr>"
  from Cons.prems c have before: "now < cooldown_until s" by simp
  have step: "check_trade s t trade bal now =
      ((False, In_cooldown (py_int (cooldown_until s - now))), ?s1)"
    by (rule check_trade_before_deadline[OF Cons.prems(1) before])
  have s1: "state ?s1 = COOLDOWN" using Cons.prems(1) by simp
  have rest: "list_all (\<lambda>(t, trade, bal, now). now < cooldown_until ?s1) calls"
    using Cons.prems(2) by simp
  from Cons.IH[OF s1 rest] show ?case
    by (simp add: c step split_beta)
qed

lemma check_trade_after_deadline:
  assumes "state s = COOLDOWN" "cooldown_until s \<le> now"
  shows "recovery_trades_remaining (snd (check_trade s t trade bal now)) = RECOVERY_TRADE_COUNT \<and>
         (if drawdown_hit s bal
          then fst (check_trade s t trade bal now)
                 = (False, Daily_drawdown_limit_hit
                             ((day_start_balance s - bal) / day_start_balance s)) \<and>
               state (snd (check_trade s t trade bal now)) = COOLDOWN \<and>
               cooldown_until (snd (check_trade s t trade bal now))
                 = now + real_of_int (COOLDOWN_MINUTES * 60)
          else fst (check_trade s t trade bal now) = size_gates t trade bal \<and>
               state (snd (check_trade s t trade bal now)) = RECOVERY)"
  using assms
  by (simp add: check_trade_def Let_def enter_recovery_def enter_cooldown_def drawdown_hit_def)

lemma recovery_only_in_check_trade:
  assumes "state s = COOLDOWN" "state (risk_step s op) = RECOVERY"
  shows "\<exists>t trade bal now. op = Check_trade t trade bal now \<and> cooldown_until s \<le> now"
proof (cases op)
  case (Set_day_start_balance bal now)
  with assms show ?thesis by (simp add: set_day_start_balance_def)
next
  case (Check_trade t trade bal now)
  have "cooldown_until s \<le> now"
  proof (rule ccontr)
    assume "\<not> cooldown_until s \<le> now"
    then have "now < cooldown_until s" by simp
    from check_trade_before_deadline[OF assms(1) this, of t trade bal] assms Check_trade
    show False by simp
  qed
  with Check_trade show ?thesis by simp
next
  case Get_position_multiplier
  with assms show ?thesis by simp
next
  case (Record_trade_completed is_win now)
  with assms show ?thesis by (simp add: record_trade_completed_def)
next
  case (Is_trading_allowed now)
  with assms show ?thesis by simp
qed

text \<open>
  Claim C1 (amended). From a state in cooldown, every \<open>check_trade\<close> call whose clock
  reading is before the deadline is rejected with the cooldown reason and leaves the
  state in cooldown with the same deadline. The next call, at or after the deadline,
  sets the recovery trades remaining to \<open>RECOVERY_TRADE_COUNT\<close> and returns in
  \<open>RECOVERY\<close>, unless the daily-drawdown gate fires in that same call: then the call
  is rejected and returns in \<open>COOLDOWN\<close> with a new deadline, the base duration after
  the call. No other operation of the risk manager takes a state in cooldown to
  \<open>RECOVERY\<close>.
\<close>

theorem cooldown_lazy_recovery:
  assumes "state s = COOLDOWN"
    and "list_all (\<lambda>(t, trade, bal, now). now < cooldown_until s) calls"
    and "cooldown_until s \<le> now"
  shows "list_all (\<lambda>r. \<exists>n. r = (False, In_cooldown n)) (fst (check_trades s calls)) \<and>
         length (fst (check_trades s calls)) = length calls \<and>
         state (snd (check_trades s calls)) = COOLDOWN \<and>
         cooldown_until (snd (check_trades s calls)) = cooldown_until s \<and>
         recovery_trades_remaining
             (snd (check_trade (snd (check_trades s calls)) t trade bal now))
           = RECOVERY_TRADE_COUNT \<and>
         (if drawdown_hit s bal
          then fst (check_trade (snd (check_trades s calls)) t trade bal now)
                 = (False, Daily_drawdown_limit_hit
                             ((day_start_balance s - bal) / day_start_balance s)) \<and>
               state (snd (check_trade (snd (check_trades s calls)) t trade bal now)) = COOLDOWN \<and>
               cooldown_until (snd (check_trade (snd (check_trades s calls)) t trade bal now))
                 = now + real_of_int (COOLDOWN_MINUTES * 60)
          else state (snd (check_trade (snd (check_trades s calls)) t trade bal now)) = RECOVERY) \<and>
         (\<forall>op. state (risk_step s op) = RECOVERY \<longrightarrow>
               (\<exists>t' trade' bal' now'. op = Check_trade t' trade' bal' now' \<and>
                                       cooldown_until s \<le> now'))"
proof -
  let ?s' = "snd (check_trades s calls)"
  from check_trades_before_deadline[OF assms(1,2)] have
    pre: "list_all (\<lambda>r. \<exists>n. r = (False, In_cooldown n)) (fst (check_trades s calls))"
      "length (fst (check_trades s calls)) = length calls"
      "state ?s' = COOLDOWN" "cooldown_until ?s' = cooldown_until s"
      "day_start_balance ?s' = day_start_balance s"
    by simp_all
  have dd: "drawdown_hit ?s' bal = drawdown_hit s bal"
    by (simp add: drawdown_hit_def pre(5))
  have dl: "cooldown_until ?s' \<le> now" using assms(3) pre(4) by simp
  from check_trade_after_deadline[OF pre(3) dl, of t trade bal] have
    post: "recovery_trades_remaining (snd (check_trade ?s' t trade bal now)) = RECOVERY_TRADE_COUNT"
      "if drawdown_hit s bal
          then fst (check_trade ?s' t trade bal now)
                 = (False, Daily_drawdown_limit_hit
                             ((day_start_balance s - bal) / day_start_balance s)) \<and>
               state (snd (check_trade ?s' t trade bal now)) = COOLDOWN \<and>
               cooldown_until (snd (check_trade ?s' t trade bal now))
                 = now + real_of_int (COOLDOWN_MINUTES * 60)
          else state (snd (check_trade ?s' t trade bal now)) = RECOVERY"
    by (simp_all add: dd pre(5) split: if_splits)
  have ops: "\<forall>op. state (risk_step s op) = RECOVERY \<longrightarrow>
               (\<exists>t' trade' bal' now'. op = Check_trade t' trade' bal' now' \<and>
                                       cooldown_until s \<le> now')"
    using recovery_only_in_check_trade[OF assms(1)] by blast
  from pre(1-4) post ops show ?thesis by blast
qed


text \<open>
  A day that started at 1000 with the balance at 900: the first call enters cooldown
  until 1800; the call at 1800 passes the cooldown gate, and the drawdown gate sends
  the state back to cooldown, so the call does not return in \<open>RECOVERY\<close>.
\<close>

theorem cooldown_lazy_recovery_counterexample:
  "state (snd (check_trade (set_day_start_balance (new_risk_manager 0) 1000 0) new_tracker
            \<lparr>q_strategy = ''s'', q_token_id = ''A'', q_side = ''BUY'', q_price = 0.5,
              q_size = 20, max_loss_usd = 0.5\<rparr> 900 0)) = COOLDOWN \<and>
   cooldown_until (snd (check_trade (set_day_start_balance (new_risk_manager 0) 1000 0) new_tracker
            \<lparr>q_strategy = ''s'', q_token_id = ''A'', q_side = ''BUY'', q_price = 0.5,
              q_size = 20, max_loss_usd = 0.5\<rparr> 900 0)) \<le> 1800 \<and>
   state (snd (check_trade
       (snd (check_trade (set_day_start_balance (new_risk_manager 0) 1000 0) new_tracker
            \<lparr>q_strategy = ''s'', q_token_id = ''A'', q_side = ''BUY'', q_price = 0.5,
              q_size = 20, max_loss_usd = 0.5\<rparr> 900 0))
       new_tracker
       \<lparr>q_strategy = ''s'', q_token_id = ''A'', q_side = ''BUY'', q_price = 0.5,
         q_size = 20, max_loss_usd = 0.5\<rparr> 900 1800)) \<noteq> RECOVERY"
  by (simp add: risk_eval new_tracker_def config_defs)

theorem cooldown_lazy_recovery_witness:
  "state (snd (check_trade (set_day_start_balance (new_risk_manager 0) 1000 0) new_tracker
            \<lparr>q_strategy = ''s'', q_token_id = ''A'', q_side = ''BUY'', q_price = 0.5,
              q_size = 20, max_loss_usd = 0.5\<rparr> 900 0)) = COOLDOWN \<and>
   list_all (\<lambda>(t, trade, bal, now). now <
       cooldown_until (snd (check_trade (set_day_start_balance (new_risk_manager 0) 1000 0)
            new_tracker
            \<lparr>q_strategy = ''s'', q_token_id = ''A'', q_side = ''BUY'', q_price = 0.5,
              q_size = 20, max_loss_usd = 0.5\<rparr> 900 0)))
     [(new_tracker, \<lparr>q_strategy = ''s'', q_token_id = ''A'', q_side = ''BUY'', q_price = 0.5,
              q_size = 20, max_loss_usd = 0.5\<rparr>, 900, 10),
      (new_tracker, \<lparr>q_strategy = ''s'', q_token_id = ''A'', q_side = ''BUY'', q_price = 0.5,
              q_size = 20, max_loss_usd = 0.5\<rparr>, 990, 1799)] \<and>
   cooldown_until (snd (check_trade (set_day_start_balance (new_risk_manager 0) 1000 0) new_tracker
            \<lparr>q_strategy = ''s'', q_token_id = ''A'', q_side = ''BUY'', q_price = 0.5,
              q_size = 20, max_loss_usd = 0.5\<rparr> 900 0)) \<le> 1800 \<and>
   fst (check_trades
       (snd (check_trade (set_day_start_balance (new_risk_manager 0) 1000 0) new_tracker
            \<lparr>q_strategy = ''s'', q_token_id = ''A'', q_side = ''BUY'', q_price = 0.5,
              q_size = 20, max_loss_usd = 0.5\<rparr> 900 0))
       [(new_tracker, \<lparr>q_strategy = ''s'', q_token_id = ''A'', q_side = ''BUY'', q_price = 0.5,
              q_size = 20, max_loss_usd = 0.5\<rparr>, 900, 10),
        (new_tracker, \<lparr>q_strategy = ''s'', q_token_id = ''A'', q_side = ''BUY'', q_price = 0.5,
              q_size = 20, max_loss_usd = 0.5\<rparr>, 990, 1799)])
     = [(False, In_cooldown 1790), (False, In_cooldown 1)] \<and>
   check_trade (snd (check_trades
       (snd (check_trade (set_day_start_balance (new_risk_manager 0) 1000 0) new_tracker
            \<lparr>q_strategy = ''s'', q_token_id = ''A'', q_side = ''BUY'', q_price = 0.5,
              q_size = 20, max_loss_usd = 0.5\<rparr> 900 0))
       [(new_tracker, \<lparr>q_strategy = ''s'', q_token_id = ''A'', q_side = ''BUY'', q_price = 0.5,
              q_size = 20, max_loss_usd = 0.5\<rparr>, 900, 10),
        (new_tracker, \<lparr>q_strategy = ''s'', q_token_id = ''A'', q_side = ''BUY'', q_price = 0.5,
              q_size = 20, max_loss_usd = 0.5\<rparr>, 990, 1799)]))
     new_tracker
     \<lparr>q_strategy = ''s'', q_token_id = ''A'', q_side = ''BUY'', q_price = 0.5,
       q_size = 20, max_loss_usd = 0.5\<rparr> 990 1800
     = ((True, No_reason),
        \<lparr>state = RECOVERY, cooldown_until = 1800, recovery_trades_remaining = 5,
          day_start_balance = 1000, day_start_time = 0, last_known_balance = 990\<rparr>)"
  using cooldown_lazy_recovery[of
      "snd (check_trade (set_day_start_balance (new_risk_manager 0) 1000 0) new_tracker
            \<lparr>q_strategy = ''s'', q_token_id = ''A'', q_side = ''BUY'', q_price = 0.5,
              q_size = 20, max_loss_usd = 0.5\<rparr> 900 0)"
      "[(new_tracker, \<lparr>q_strategy = ''s'', q_token_id = ''A'', q_side = ''BUY'', q_price = 0.5,
              q_size = 20, max_loss_usd = 0.5\<rparr>, 900, 10),
        (new_tracker, \<lparr>q_strategy = ''s'', q_token_id = ''A'', q_side = ''BUY'', q_price = 0.5,
              q_size = 20, max_loss_usd = 0.5\<rparr>, 990, 1799)]"
      1800 new_tracker
      "\<lparr>q_strategy = ''s'', q_token_id = ''A'', q_side = ''BUY'', q_price = 0.5,
              q_size = 20, max_loss_usd = 0.5\<rparr>" 990]
  by (simp add: risk_eval new_tracker_def config_defs)

lemma drawdown_hit_last_known:
  "drawdown_hit (s\<lparr>last_known_balance := bal'\<rparr>) bal = drawdown_hit s bal"
  by (simp add: drawdown_hit_def)

lemma check_trade_in_recovery:
  assumes "state s = RECOVERY" "\<not> drawdown_hit s bal"
  shows "state (snd (check_trade s t trade bal now)) = RECOVERY \<and>
         recovery_trades_remaining (snd (check_trade s t trade bal now))
           = recovery_trades_remaining s \<and>
         fst (check_trade s t trade bal now) = size_gates t trade bal"
  using assms by (simp add: check_trade_def Let_def drawdown_hit_last_known)

lemma calm_step_keeps_recovery:
  assumes "state s = RECOVERY" "op_calm s op"
    and "int (length (filter is_win [op])) < recovery_trades_remaining s"
  shows "state (risk_step s op) = RECOVERY \<and>
         recovery_trades_remaining (risk_step s op)
           = recovery_trades_remaining s - int (length (filter is_win [op]))"
proof (cases op)
  case (Set_day_start_balance bal now)
  with assms show ?thesis by (simp add: set_day_start_balance_def)
next
  case (Check_trade t trade bal now)
  with assms check_trade_in_recovery[of s bal t trade now] show ?thesis by simp
next
  case Get_position_multiplier
  with assms show ?thesis by simp
next
  case (Record_trade_completed w now)
  with assms show ?thesis by (simp add: record_trade_completed_def Let_def)
next
  case (Is_trading_allowed now)
  with assms show ?thesis by simp
qed

lemma calm_run_keeps_recovery:
  assumes "state s = RECOVERY" "calm s ops" "wins ops < recovery_trades_remaining s"
  shows "state (run_ops s ops) = RECOVERY \<and>
         recovery_trades_remaining (run_ops s ops) = recovery_trades_remaining s - wins ops"
  using assms
proof (induction ops arbitrary: s)
  case Nil
  then show ?case by (simp add: run_ops_def wins_def)
next
  case (Cons op ops)
  from Cons.prems(3) have one: "int (length (filter is_win [op])) < recovery_trades_remaining s"
    by (simp add: wins_def split: if_splits)
  from Cons.prems(2) have c: "op_calm s op" "calm (risk_step s op) ops" by simp_all
  from calm_step_keeps_recovery[OF Cons.prems(1) c(1) one] have
    st: "state (risk_step s op) = RECOVERY" and
    rem: "recovery_trades_remaining (risk_step s op)
           = recovery_trades_remaining s - int (length (filter is_win [op]))"
    by simp_all
  have w: "wins (op # ops) = int (length (filter is_win [op])) + wins ops"
    by (simp add: wins_def)
  have "wins ops < recovery_trades_remaining (risk_step s op)"
    using Cons.prems(3) rem w by simp
  from Cons.IH[OF st c(2) this] rem w show ?case
    by (simp add: run_ops_def)
qed

lemma run_ops_snoc: "run_ops s (ops @ [op]) = risk_step (run_ops s ops) op"
  by (simp add: run_ops_def)

text \<open>
  Claim C2 (amended). In \<open>RECOVERY\<close> the position multiplier is
  \<open>RECOVERY_POSITION_MULTIPLIER\<close>, in \<open>NORMAL\<close> it is 1. From the entry into recovery,
  over any sequence of operations of the risk manager that holds no loss notification
  and no \<open>check_trade\<close> call on which the daily-drawdown gate fires: while fewer than
  \<open>RECOVERY_TRADE_COUNT\<close> wins have been notified the state is \<open>RECOVERY\<close>, and the win
  notification that brings the count to \<open>RECOVERY_TRADE_COUNT\<close> gives \<open>NORMAL\<close> and the
  multiplier 1. A loss notification in \<open>RECOVERY\<close> gives \<open>COOLDOWN\<close> with the deadline
  \<open>4 * COOLDOWN_MINUTES\<close> minutes after it; a \<open>check_trade\<close> call in \<open>RECOVERY\<close> on
  which the drawdown gate fires gives \<open>COOLDOWN\<close> with the base duration.
\<close>

theorem recovery_contract:
  "(state s = RECOVERY \<longrightarrow> get_position_multiplier s = RECOVERY_POSITION_MULTIPLIER) \<and>
   (state s = NORMAL \<longrightarrow> get_position_multiplier s = 1) \<and>
   (calm (enter_recovery s) ops \<and> wins ops < RECOVERY_TRADE_COUNT \<longrightarrow>
      state (run_ops (enter_recovery s) ops) = RECOVERY \<and>
      get_position_multiplier (run_ops (enter_recovery s) ops) = RECOVERY_POSITION_MULTIPLIER) \<and>
   (calm (enter_recovery s) ops \<and> wins ops = RECOVERY_TRADE_COUNT - 1 \<longrightarrow>
      state (run_ops (enter_recovery s) (ops @ [Record_trade_completed True now])) = NORMAL \<and>
      get_position_multiplier
        (run_ops (enter_recovery s) (ops @ [Record_trade_completed True now])) = 1) \<and>
   (state s = RECOVERY \<longrightarrow>
      state (record_trade_completed s False now) = COOLDOWN \<and>
      cooldown_until (record_trade_completed s False now)
        = now + real_of_int (4 * COOLDOWN_MINUTES * 60)) \<and>
   (state s = RECOVERY \<and> drawdown_hit s bal \<longrightarrow>
      state (snd (check_trade s t trade bal now)) = COOLDOWN \<and>
      cooldown_until (snd (check_trade s t trade bal now))
        = now + real_of_int (COOLDOWN_MINUTES * 60))"
proof -
  let ?s0 = "enter_recovery s"
  have er: "state ?s0 = RECOVERY" "recovery_trades_remaining ?s0 = RECOVERY_TRADE_COUNT"
    by (simp_all add: enter_recovery_def)
  have a: "calm ?s0 ops \<and> wins ops < RECOVERY_TRADE_COUNT \<longrightarrow>
      state (run_ops ?s0 ops) = RECOVERY \<and>
      get_position_multiplier (run_ops ?s0 ops) = RECOVERY_POSITION_MULTIPLIER"
    using calm_run_keeps_recovery[OF er(1), of ops] er(2)
    by (simp add: get_position_multiplier_def)
  have b: "calm ?s0 ops \<and> wins ops = RECOVERY_TRADE_COUNT - 1 \<longrightarrow>
      state (run_ops ?s0 (ops @ [Record_trade_completed True now])) = NORMAL \<and>
      get_position_multiplier (run_ops ?s0 (ops @ [Record_trade_completed True now])) = 1"
  proof (intro impI)
    assume h: "calm ?s0 ops \<and> wins ops = RECOVERY_TRADE_COUNT - 1"
    then have "wins ops < recovery_trades_remaining ?s0" using er(2) by simp
    from calm_run_keeps_recovery[OF er(1) _ this] h er(2)
    have "state (run_ops ?s0 ops) = RECOVERY"
      "recovery_trades_remaining (run_ops ?s0 ops) = 1"
      by simp_all
    then have "state (run_ops ?s0 (ops @ [Record_trade_completed True now])) = NORMAL"
      by (simp add: run_ops_snoc record_trade_completed_def Let_def)
    then show "state (run_ops ?s0 (ops @ [Record_trade_completed True now])) = NORMAL \<and>
      get_position_multiplier (run_ops ?s0 (ops @ [Record_trade_completed True now])) = 1"
      by (simp add: get_position_multiplier_def)
  qed
  have c: "state s = RECOVERY \<longrightarrow>
      state (record_trade_completed s False now) = COOLDOWN \<and>
      cooldown_until (record_trade_completed s False now)
        = now + real_of_int (4 * COOLDOWN_MINUTES * 60)"
    by (simp add: record_trade_completed_def enter_cooldown_def Let_def mult.commute)
  have d: "(state s = RECOVERY \<longrightarrow> get_position_multiplier s = RECOVERY_POSITION_MULTIPLIER) \<and>
   (state s = NORMAL \<longrightarrow> get_position_multiplier s = 1)"
    by (simp add: get_position_multiplier_def)
  have e: "state s = RECOVERY \<and> drawdown_hit s bal \<longrightarrow>
      state (snd (check_trade s t trade bal now)) = COOLDOWN \<and>
      cooldown_until (snd (check_trade s t trade bal now))
        = now + real_of_int (COOLDOWN_MINUTES * 60)"
    by (simp add: check_trade_def Let_def drawdown_hit_last_known enter_cooldown_def)
  from a b c d e show ?thesis by blast
qed

text \<open>
  Five wins and no loss after the entry into recovery, with one \<open>check_trade\<close> call
  after the first win at a balance of 900 on a day that started at 1000: the drawdown
  gate sends the state to cooldown, the later wins are ignored, and the state after
  the fifth win is \<open>COOLDOWN\<close>, not \<open>NORMAL\<close>.
\<close>

theorem recovery_contract_counterexample:
  "\<not> list_ex is_loss
     [Record_trade_completed True 1,
      Check_trade new_tracker \<lparr>q_strategy = ''s'', q_token_id = ''A'', q_side = ''BUY'',
        q_price = 0.5, q_size = 20, max_loss_usd = 0.5\<rparr> 900 2,
      Record_trade_completed True 3, Record_trade_completed True 4,
      Record_trade_completed True 5, Record_trade_completed True 6] \<and>
   wins [Record_trade_completed True 1,
      Check_trade new_tracker \<lparr>q_strategy = ''s'', q_token_id = ''A'', q_side = ''BUY'',
        q_price = 0.5, q_size = 20, max_loss_usd = 0.5\<rparr> 900 2,
      Record_trade_completed True 3, Record_trade_completed True 4,
      Record_trade_completed True 5, Record_trade_completed True 6] = RECOVERY_TRADE_COUNT \<and>
   state (run_ops (enter_recovery (set_day_start_balance (new_risk_manager 0) 1000 0))
     [Record_trade_completed True 1,
      Check_trade new_tracker \<lparr>q_strategy = ''s'', q_token_id = ''A'', q_side = ''BUY'',
        q_price = 0.5, q_size = 20, max_loss_usd = 0.5\<rparr> 900 2,
      Record_trade_completed True 3, Record_trade_completed True 4,
      Record_trade_completed True 5, Record_trade_completed True 6]) = COOLDOWN"
  by (simp add: risk_eval run_ops_def wins_def new_tracker_def config_defs)

theorem recovery_contract_witness:
  "state (enter_recovery (new_risk_manager 0)) = RECOVERY \<and>
   get_position_multiplier (enter_recovery (new_risk_manager 0)) = RECOVERY_POSITION_MULTIPLIER \<and>
   state (new_risk_manager 0) = NORMAL \<and>
   get_position_multiplier (new_risk_manager 0) = 1 \<and>
   calm (enter_recovery (set_day_start_balance (new_risk_manager 0) 1000 0))
     [Record_trade_completed True 1,
      Check_trade new_tracker \<lparr>q_strategy = ''s'', q_token_id = ''A'', q_side = ''BUY'',
        q_price = 0.5, q_size = 20, max_loss_usd = 0.5\<rparr> 990 2,
      Record_trade_completed True 3, Is_trading_allowed 4, Record_trade_completed True 5,
      Set_day_start_balance 1010 6, Record_trade_completed True 7] \<and>
   wins [Record_trade_completed True 1,
      Check_trade new_tracker \<lparr>q_strategy = ''s'', q_token_id = ''A'', q_side = ''BUY'',
        q_price = 0.5, q_size = 20, max_loss_usd = 0.5\<rparr> 990 2,
      Record_trade_completed True 3, Is_trading_allowed 4, Record_trade_completed True 5,
      Set_day_start_balance 1010 6, Record_trade_completed True 7] = RECOVERY_TRADE_COUNT - 1 \<and>
   state (run_ops (enter_recovery (set_day_start_balance (new_risk_manager 0) 1000 0))
     [Record_trade_completed True 1,
      Check_trade new_tracker \<lparr>q_strategy = ''s'', q_token_id = ''A'', q_side = ''BUY'',
        q_price = 0.5, q_size = 20, max_loss_usd = 0.5\<rparr> 990 2,
      Record_trade_completed True 3, Is_trading_allowed 4, Record_trade_completed True 5,
      Set_day_start_balance 1010 6, Record_trade_completed True 7]) = RECOVERY \<and>
   state (run_ops (enter_recovery (set_day_start_balance (new_risk_manager 0) 1000 0))
     ([Record_trade_completed True 1,
      Check_trade new_tracker \<lparr>q_strategy = ''s'', q_token_id = ''A'', q_side = ''BUY'',
        q_price = 0.5, q_size = 20, max_loss_usd = 0.5\<rparr> 990 2,
      Record_trade_completed True 3, Is_trading_allowed 4, Record_trade_completed True 5,
      Set_day_start_balance 1010 6, Record_trade_completed True 7]
      @ [Record_trade_completed True 8])) = NORMAL \<and>
   state (record_trade_completed (enter_recovery (new_risk_manager 0)) False 100) = COOLDOWN \<and>
   cooldown_until (record_trade_completed (enter_recovery (new_risk_manager 0)) False 100)
     = 7300 \<and>
   drawdown_hit (enter_recovery (set_day_start_balance (new_risk_manager 0) 1000 0)) 900 \<and>
   cooldown_until (snd (check_trade
       (enter_recovery (set_day_start_balance (new_risk_manager 0) 1000 0)) new_tracker
       \<lparr>q_strategy = ''s'', q_token_id = ''A'', q_side = ''BUY'',
        q_price = 0.5, q_size = 20, max_loss_usd = 0.5\<rparr> 900 100)) = 1900"
  using recovery_contract[where s = "enter_recovery (new_risk_manager 0)" and ops = "[]"
      and now = 100 and bal = 0 and t = new_tracker
      and trade = "\<lparr>q_strategy = ''s'', q_token_id = ''A'', q_side = ''BUY'',
        q_price = 0.5, q_size = 20, max_loss_usd = 0.5\<rparr>"]
    recovery_contract[where s = "new_risk_manager 0" and ops = "[]"
      and now = 100 and bal = 0 and t = new_tracker
      and trade = "\<lparr>q_strategy = ''s'', q_token_id = ''A'', q_side = ''BUY'',
        q_price = 0.5, q_size = 20, max_loss_usd = 0.5\<rparr>"]
    recovery_contract[where s = "set_day_start_balance (new_risk_manager 0) 1000 0"
      and ops = "[Record_trade_completed True 1,
      Check_trade new_tracker \<lparr>q_strategy = ''s'', q_token_id = ''A'', q_side = ''BUY'',
        q_price = 0.5, q_size = 20, max_loss_usd = 0.5\<rparr> 990 2,
      Record_trade_completed True 3, Is_trading_allowed 4, Record_trade_completed True 5,
      Set_day_start_balance 1010 6, Record_trade_completed True 7]"
      and now = 8 and bal = 0 and t = new_tracker
      and trade = "\<lparr>q_strategy = ''s'', q_token_id = ''A'', q_side = ''BUY'',
        q_price = 0.5, q_size = 20, max_loss_usd = 0.5\<rparr>"]
    recovery_contract[where s = "enter_recovery (set_day_start_balance (new_risk_manager 0) 1000 0)"
      and ops = "[]" and now = 100 and bal = 900 and t = new_tracker
      and trade = "\<lparr>q_strategy = ''s'', q_token_id = ''A'', q_side = ''BUY'',
        q_price = 0.5, q_size = 20, max_loss_usd = 0.5\<rparr>"]
  by (simp add: risk_eval run_ops_def wins_def new_tracker_def config_defs)

subsection \<open>Rounding to doubles\<close>

text \<open>
  Rounding is monotone towards non-negative numbers, leaves every \<open>m * 2 powi k\<close> with
  \<open>\<bar>m\<bar> < 2 ^ 53\<close> and \<open>k \<ge> - 1074\<close> unchanged, and inside a binade is rounding of the
  significand to an integer.
\<close>

lemma round_even_of_int: "round_even (of_int n) = n"
  by (simp add: round_even_def)

lemma round_even_bounds: "\<lfloor>x\<rfloor> \<le> round_even x \<and> round_even x \<le> \<lfloor>x\<rfloor> + 1"
  by (simp add: round_even_def)

lemma round_even_mono:
  assumes "x \<le> y"
  shows "round_even x \<le> round_even y"
proof (cases "\<lfloor>x\<rfloor> = \<lfloor>y\<rfloor>")
  case True
  with assms show ?thesis by (auto simp: round_even_def)
next
  case False
  with assms have "\<lfloor>x\<rfloor> < \<lfloor>y\<rfloor>" by (simp add: floor_mono le_neq_trans)
  with round_even_bounds[of x] round_even_bounds[of y] show ?thesis by linarith
qed

lemma ulp_pos: "0 < ulp x"
  by (simp add: ulp_def)

lemma expo_upper:
  assumes "x \<noteq> 0"
  shows "\<bar>x\<bar> < 2 powi (expo x + 1)"
proof -
  have pos: "0 < \<bar>x\<bar>" using assms by simp
  have "\<lfloor>log 2 \<bar>x\<bar>\<rfloor> \<le> expo x" by (simp add: expo_def)
  then have "log 2 \<bar>x\<bar> < real_of_int (expo x + 1)" by linarith
  then have "\<bar>x\<bar> < 2 powr real_of_int (expo x + 1)"
    by (rule iffD1[OF log_less_iff[OF _ pos], rotated]) simp
  moreover have "(2::real) powr real_of_int (expo x + 1) = 2 powi (expo x + 1)"
    by (rule powr_real_of_int') simp_all
  ultimately show ?thesis by (simp only:)
qed

lemma expo_lower:
  assumes "x \<noteq> 0" "- 1022 < expo x"
  shows "2 powi (expo x) \<le> \<bar>x\<bar>"
proof -
  have pos: "0 < \<bar>x\<bar>" using assms by simp
  from assms(2) have "expo x = \<lfloor>log 2 \<bar>x\<bar>\<rfloor>" by (simp add: expo_def max_def split: if_splits)
  then have "real_of_int (expo x) \<le> log 2 \<bar>x\<bar>" by simp
  then have "2 powr real_of_int (expo x) \<le> \<bar>x\<bar>"
    using pos by (simp add: le_log_iff)
  then show ?thesis by (simp add: powr_real_of_int')
qed

lemma expo_mono:
  assumes "0 < x" "x \<le> y"
  shows "expo x \<le> expo y"
proof -
  have "log 2 \<bar>x\<bar> \<le> log 2 \<bar>y\<bar>" using assms by simp
  then have "\<lfloor>log 2 \<bar>x\<bar>\<rfloor> \<le> \<lfloor>log 2 \<bar>y\<bar>\<rfloor>" by (rule floor_mono)
  then show ?thesis by (simp add: expo_def)
qed

lemma expo_eqI:
  assumes "0 < x" "2 powi e \<le> x" "x < 2 powi (e + 1)" "- 1022 \<le> e"
  shows "expo x = e"
proof -
  have p: "(2::real) powr real_of_int e = 2 powi e"
    "(2::real) powr real_of_int (e + 1) = 2 powi (e + 1)"
    by (rule powr_real_of_int'; simp)+
  have "2 powr real_of_int e \<le> x \<and> x < 2 powr real_of_int (e + 1)"
    using assms(2,3) by (simp only: p)
  then have "\<lfloor>log 2 x\<rfloor> = e"
    by (rule iffD2[OF floor_log_eq_powr_iff[OF assms(1)], rotated]) simp
  with assms(1,4) show ?thesis by (simp add: expo_def)
qed

lemma rnd_nonneg:
  assumes "0 \<le> x"
  shows "0 \<le> rnd x"
proof (cases "x = 0")
  case True
  then show ?thesis by (simp add: rnd_def)
next
  case False
  have "0 \<le> x / ulp x" using assms ulp_pos[of x] by simp
  from round_even_mono[OF this] have "0 \<le> round_even (x / ulp x)"
    using round_even_of_int[of 0] by simp
  with False ulp_pos[of x] show ?thesis by (simp add: rnd_def)
qed

lemma rnd_nonpos:
  assumes "x \<le> 0"
  shows "rnd x \<le> 0"
proof (cases "x = 0")
  case True
  then show ?thesis by (simp add: rnd_def)
next
  case False
  have "x / ulp x \<le> 0" using assms ulp_pos[of x] by (simp add: divide_nonpos_pos)
  from round_even_mono[OF this] have "round_even (x / ulp x) \<le> 0"
    using round_even_of_int[of 0] by simp
  with False ulp_pos[of x] show ?thesis by (simp add: rnd_def mult_nonpos_nonneg)
qed

lemma two_powi_split: "(2::real) powi (e + 1) = 9007199254740992 * 2 powi (e - 52)"
proof -
  have eq: "e + 1 = 53 + (e - 52)" by simp
  have "(2::real) powi (53 + (e - 52)) = 2 powi 53 * 2 powi (e - 52)"
    by (rule power_int_add) simp
  then show ?thesis by (simp add: eq)
qed

lemma two_powi_split': "(2::real) powi e = 4503599627370496 * 2 powi (e - 52)"
proof -
  have eq: "e = 52 + (e - 52)" by simp
  have "(2::real) powi (52 + (e - 52)) = 2 powi 52 * 2 powi (e - 52)"
    by (rule power_int_add) simp
  then show ?thesis by (simp add: eq[symmetric])
qed

lemma rnd_le_pow:
  assumes "0 < x"
  shows "rnd x \<le> 2 powi (expo x + 1)"
proof -
  have "x < 9007199254740992 * ulp x"
    using expo_upper[of x] assms two_powi_split[of "expo x"] by (simp add: ulp_def)
  then have "x / ulp x \<le> of_int 9007199254740992"
    using ulp_pos[of x] by (simp add: pos_divide_le_eq)
  from round_even_mono[OF this] have "round_even (x / ulp x) \<le> 9007199254740992"
    by (simp only: round_even_of_int)
  then have "real_of_int (round_even (x / ulp x)) \<le> 9007199254740992"
    by linarith
  then have "real_of_int (round_even (x / ulp x)) * ulp x \<le> 9007199254740992 * ulp x"
    using ulp_pos[of x] by (simp add: mult_right_mono)
  with assms two_powi_split[of "expo x"] show ?thesis by (simp add: rnd_def ulp_def)
qed

lemma rnd_ge_pow:
  assumes "0 < x" "- 1022 < expo x"
  shows "2 powi (expo x) \<le> rnd x"
proof -
  have "4503599627370496 * ulp x \<le> x"
    using expo_lower[of x] assms two_powi_split'[of "expo x"] by (simp add: ulp_def)
  then have "of_int 4503599627370496 \<le> x / ulp x"
    using ulp_pos[of x] by (simp add: pos_le_divide_eq)
  from round_even_mono[OF this] have "4503599627370496 \<le> round_even (x / ulp x)"
    by (simp only: round_even_of_int)
  then have "4503599627370496 \<le> real_of_int (round_even (x / ulp x))"
    by linarith
  then have "4503599627370496 * ulp x \<le> real_of_int (round_even (x / ulp x)) * ulp x"
    using ulp_pos[of x] by (simp add: mult_right_mono)
  with assms two_powi_split'[of "expo x"] show ?thesis by (simp add: rnd_def ulp_def)
qed

lemma rnd_mono:
  assumes "x \<le> y" "0 \<le> y"
  shows "rnd x \<le> rnd y"
proof (cases "x \<le> 0")
  case True
  from rnd_nonpos[OF True] rnd_nonneg[OF assms(2)] show ?thesis by linarith
next
  case False
  then have x: "0 < x" and y: "0 < y" using assms by simp_all
  have e: "expo x \<le> expo y" by (rule expo_mono[OF x assms(1)])
  show ?thesis
  proof (cases "expo x = expo y")
    case True
    then have u: "ulp x = ulp y" by (simp add: ulp_def)
    have "x / ulp y \<le> y / ulp y" using assms(1) ulp_pos[of y] by (simp add: divide_right_mono)
    from round_even_mono[OF this]
    have "real_of_int (round_even (x / ulp y)) * ulp y \<le> real_of_int (round_even (y / ulp y)) * ulp y"
      using ulp_pos[of y] by (simp add: mult_right_mono)
    with x y u show ?thesis by (simp add: rnd_def)
  next
    case False
    with e have lt: "expo x + 1 \<le> expo y" by simp
    then have "- 1022 < expo y" by (simp add: expo_def)
    from rnd_ge_pow[OF y this] have "2 powi (expo y) \<le> rnd y" .
    moreover have "(2::real) powi (expo x + 1) \<le> 2 powi (expo y)"
      using lt by (intro power_int_increasing) simp_all
    moreover note rnd_le_pow[OF x]
    ultimately show ?thesis by linarith
  qed
qed

lemma rnd_binade:
  assumes "0 < x" "2 powi e \<le> x" "x < 2 powi (e + 1)" "- 1022 \<le> e"
  shows "rnd x = of_int (round_even (x / 2 powi (e - 52))) * 2 powi (e - 52)"
  using assms expo_eqI[OF assms] by (simp add: rnd_def ulp_def)

lemma rnd_exact:
  assumes "\<bar>m\<bar> < 2 ^ 53" "- 1074 \<le> k"
  shows "rnd (of_int m * 2 powi k) = of_int m * 2 powi k"
proof (cases "m = 0")
  case True
  then show ?thesis by (simp add: rnd_def)
next
  case False
  define x where "x = real_of_int m * 2 powi k"
  define u where "u = ulp x"
  have nz: "x \<noteq> 0" using False by (simp add: x_def)
  have u_pos: "0 < u" by (simp add: u_def ulp_pos)
  have "real_of_int \<bar>m\<bar> < 9007199254740992" using assms(1) by simp
  then have "\<bar>x\<bar> < 9007199254740992 * 2 powi k"
    by (simp add: abs_mult x_def)
  also have "\<dots> = 2 powi (k + 52 + 1)"
    using two_powi_split[of "k + 52"] by simp
  finally have ub: "\<bar>x\<bar> < 2 powi (k + 52 + 1)" .
  have pw: "(2::real) powr real_of_int (k + 52 + 1) = 2 powi (k + 52 + 1)"
    by (rule powr_real_of_int') simp_all
  have "\<bar>x\<bar> < 2 powr real_of_int (k + 52 + 1)" using ub by (simp only: pw)
  then have "log 2 \<bar>x\<bar> < real_of_int (k + 52 + 1)"
    by (rule iffD2[OF log_less_iff[of 2 "\<bar>x\<bar>"], rotated -1]) (use nz in simp_all)
  then have "\<lfloor>log 2 \<bar>x\<bar>\<rfloor> \<le> k + 52" by linarith
  with assms(2) have d: "expo x - 52 \<le> k" by (simp add: expo_def)
  define d where "d = nat (k - (expo x - 52))"
  have k: "k = (expo x - 52) + int d" using d by (simp add: d_def)
  have "(2::real) powi ((expo x - 52) + int d) = 2 powi (expo x - 52) * 2 powi int d"
    by (rule power_int_add) simp
  then have split: "(2::real) powi k = u * 2 ^ d"
    using k by (simp add: ulp_def u_def)
  have xu: "x = real_of_int (m * 2 ^ d) * u"
    by (simp add: x_def split)
  then have "x / u = real_of_int (m * 2 ^ d)"
    using u_pos by simp
  then have "round_even (x / u) = m * 2 ^ d"
    by (simp only: round_even_of_int)
  then have "rnd x = real_of_int (m * 2 ^ d) * u"
    using nz by (simp add: rnd_def u_def)
  with xu have "rnd x = x" by simp
  then show ?thesis by (simp add: x_def)
qed

lemma rnd_0: "rnd 0 = 0"
  by (simp add: rnd_def)

lemma rnd_of_int:
  assumes "\<bar>n\<bar> < 2 ^ 53"
  shows "rnd (of_int n) = of_int n"
  using rnd_exact[OF assms, of 0] by simp

lemma rnd_pow2: "- 1074 \<le> k \<Longrightarrow> rnd (2 powi k) = 2 powi k"
  using rnd_exact[of 1 k] by simp

lemma rnd_ge_pow2:
  assumes "2 powi k \<le> x" "- 1074 \<le> k"
  shows "2 powi k \<le> rnd x"
proof -
  have "0 \<le> x" using assms(1) zero_less_power_int[of "2::real" k] by linarith
  from rnd_mono[OF assms(1) this] rnd_pow2[OF assms(2)] show ?thesis by simp
qed

subsection \<open>The book walk\<close>

lemma walk_loop_consumed:
  "walk_loop ls remaining cost levels =
     (remaining_after remaining (consumed_at ls remaining),
      foldl (\<lambda>acc x. rnd (acc + x)) cost
        (map2 (\<lambda>l q. rnd (q * price l)) ls (consumed_at ls remaining)),
      levels + int (length (consumed_at ls remaining)))"
  by (induction ls arbitrary: remaining cost levels)
     (auto simp: Let_def remaining_after_def)

lemma remaining_nonneg:
  "0 \<le> remaining \<Longrightarrow> 0 \<le> remaining_after remaining (consumed_at ls remaining)"
proof (induction ls arbitrary: remaining)
  case Nil
  then show ?case by (simp add: remaining_after_def)
next
  case (Cons l ls)
  show ?case
  proof (cases "remaining \<le> 0")
    case True
    with Cons.prems show ?thesis by (simp add: remaining_after_def)
  next
    case False
    have "0 \<le> rnd (remaining - min remaining (size_lvl l))"
      by (rule rnd_nonneg) simp
    from Cons.IH[OF this] False show ?thesis by (simp add: remaining_after_def)
  qed
qed

lemma consumed_at_nonpos: "remaining \<le> 0 \<Longrightarrow> consumed_at ls remaining = []"
  by (cases ls) simp_all

lemma walk_book_asks_fields:
  "total_filled (walk_book_asks asks T) = rnd (T - remaining_after T (consumed_at asks T))"
  "total_cost (walk_book_asks asks T)
     = fsum (map2 (\<lambda>l q. rnd (q * price l)) asks (consumed_at asks T))"
  "levels_consumed (walk_book_asks asks T) = int (length (consumed_at asks T))"
  "fully_fillable (walk_book_asks asks T) = (remaining_after T (consumed_at asks T) \<le> 0)"
  "average_price (walk_book_asks asks T)
     = (if total_filled (walk_book_asks asks T) > 0
        then rnd (total_cost (walk_book_asks asks T) / total_filled (walk_book_asks asks T))
        else 0)"
  by (simp_all add: walk_book_asks_def walk_loop_consumed Let_def fsum_def)

lemma total_filled_le_target:
  assumes "0 \<le> T" "is_double T"
  shows "total_filled (walk_book_asks asks T) \<le> T"
proof -
  let ?r = "remaining_after T (consumed_at asks T)"
  have "0 \<le> ?r" by (rule remaining_nonneg[OF assms(1)])
  then have "T - ?r \<le> T" by simp
  from rnd_mono[OF this assms(1)] assms(2) show ?thesis
    by (simp add: walk_book_asks_fields(1) is_double_def)
qed

text \<open>
  Claim C4 (amended). For a book and a target \<open>T\<close>, in double arithmetic: for a double
  \<open>T > 0\<close> the filled quantity is at most \<open>T\<close>; the filled quantity is \<open>T\<close> minus what
  remains after the quantities consumed at the levels, and the cost is the sum, added
  from left to right, of quantity consumed times price; the average price is cost
  divided by filled whenever filled is positive; the estimate is fully fillable exactly
  when nothing remains, and for a double \<open>T \<ge> 0\<close> a fully fillable estimate has filled
  equal to \<open>T\<close>; for \<open>T < 0\<close> nothing is filled and the estimate is marked fully
  fillable.
\<close>

theorem walk_book_asks_estimate:
  "(0 < T \<and> is_double T \<longrightarrow> total_filled (walk_book_asks asks T) \<le> T) \<and>
   total_filled (walk_book_asks asks T)
     = rnd (T - remaining_after T (consumed_at asks T)) \<and>
   total_cost (walk_book_asks asks T)
     = fsum (map2 (\<lambda>l q. rnd (q * price l)) asks (consumed_at asks T)) \<and>
   (0 < total_filled (walk_book_asks asks T) \<longrightarrow>
      average_price (walk_book_asks asks T)
        = rnd (total_cost (walk_book_asks asks T) / total_filled (walk_book_asks asks T))) \<and>
   fully_fillable (walk_book_asks asks T)
     = (remaining_after T (consumed_at asks T) \<le> 0) \<and>
   (0 \<le> T \<and> is_double T \<and> fully_fillable (walk_book_asks asks T) \<longrightarrow>
      total_filled (walk_book_asks asks T) = T) \<and>
   (T < 0 \<longrightarrow> fully_fillable (walk_book_asks asks T) \<and>
              total_filled (walk_book_asks asks T) = 0)"
proof -
  let ?e = "walk_book_asks asks T"
  let ?r = "remaining_after T (consumed_at asks T)"
  note f = walk_book_asks_fields[of asks T]
  have le_T: "0 < T \<and> is_double T \<longrightarrow> total_filled ?e \<le> T"
    using total_filled_le_target[of T asks] by simp
  have avg: "0 < total_filled ?e \<longrightarrow> average_price ?e = rnd (total_cost ?e / total_filled ?e)"
    using f(5) by simp
  have full: "0 \<le> T \<and> is_double T \<and> fully_fillable ?e \<longrightarrow> total_filled ?e = T"
  proof (intro impI)
    assume h: "0 \<le> T \<and> is_double T \<and> fully_fillable ?e"
    then have "0 \<le> ?r" by (intro remaining_nonneg) simp
    with h have "?r = 0" by (simp add: f(4))
    with h show "total_filled ?e = T" by (simp add: f(1) is_double_def)
  qed
  have neg: "T < 0 \<longrightarrow> fully_fillable ?e \<and> total_filled ?e = 0"
    by (simp add: f(1,4) consumed_at_nonpos remaining_after_def rnd_0)
  from f(1,2,4) le_T avg full neg show ?thesis by blast
qed

text \<open>
  The sizes 0.7 and 0.3 as doubles and the target 1: the first level leaves
  0.30000000000000004, the second leaves \<open>2 powi (- 54)\<close>, so the estimate is not fully
  fillable, while \<open>1 - 2 powi (- 54)\<close> rounds to 1: filled equals the target and exceeds
  the sum of the two sizes. With the target \<open>-1\<close> the estimate is fully fillable and
  nothing is filled.
\<close>

theorem walk_book_asks_estimate_counterexample:
  "rnd 0.7 = 3152519739159347 / 4503599627370496 \<and>
   rnd 0.3 = 5404319552844595 / 18014398509481984 \<and>
   is_double 1 \<and>
   \<not> fully_fillable (walk_book_asks
         [\<lparr>price = 0.5, size_lvl = rnd 0.7\<rparr>, \<lparr>price = 0.5, size_lvl = rnd 0.3\<rparr>] 1) \<and>
   total_filled (walk_book_asks
         [\<lparr>price = 0.5, size_lvl = rnd 0.7\<rparr>, \<lparr>price = 0.5, size_lvl = rnd 0.3\<rparr>] 1) = 1 \<and>
   sum_list (map size_lvl
         [\<lparr>price = 0.5, size_lvl = rnd 0.7\<rparr>, \<lparr>price = 0.5, size_lvl = rnd 0.3\<rparr>])
     < total_filled (walk_book_asks
         [\<lparr>price = 0.5, size_lvl = rnd 0.7\<rparr>, \<lparr>price = 0.5, size_lvl = rnd 0.3\<rparr>] 1) \<and>
   fully_fillable (walk_book_asks
         [\<lparr>price = 0.5, size_lvl = rnd 0.7\<rparr>, \<lparr>price = 0.5, size_lvl = rnd 0.3\<rparr>] (- 1)) \<and>
   total_filled (walk_book_asks
         [\<lparr>price = 0.5, size_lvl = rnd 0.7\<rparr>, \<lparr>price = 0.5, size_lvl = rnd 0.3\<rparr>] (- 1))
     \<noteq> - 1"
proof -
  have r07: "rnd 0.7 = 3152519739159347 / 4503599627370496"
    using rnd_binade[of "0.7" "- 1"] by (simp add: round_even_def)
  have r03: "rnd 0.3 = 5404319552844595 / 18014398509481984"
    using rnd_binade[of "0.3" "- 2"] by (simp add: round_even_def)
  have one: "is_double 1"
    using rnd_of_int[of 1] by (simp add: is_double_def)
  have rem1: "rnd (1351079888211149 / 4503599627370496) = 1351079888211149 / 4503599627370496"
    using rnd_exact[of 1351079888211149 "- 52"] by simp
  have rem2: "rnd (1 / 18014398509481984) = 1 / 18014398509481984"
    using rnd_exact[of 1 "- 54"] by simp
  have tie: "rnd (18014398509481983 / 18014398509481984) = 1"
    using rnd_binade[of "18014398509481983 / 18014398509481984" "- 1"]
    by (simp add: round_even_def)
  show ?thesis
    by (simp add: walk_book_asks_def Let_def r07 r03 one rem1 rem2 tie rnd_0)
qed


theorem walk_book_asks_estimate_witness:
  "(0::real) < 150 \<and> is_double 150 \<and>
   walk_book_asks [\<lparr>price = 0.5, size_lvl = 100\<rparr>, \<lparr>price = 0.5, size_lvl = 100\<rparr>] 150
     = \<lparr>average_price = 1 / 2, total_filled = 150, total_cost = 75, levels_consumed = 2,
        fully_fillable = True\<rparr> \<and>
   consumed_at [\<lparr>price = 0.5, size_lvl = 100\<rparr>, \<lparr>price = 0.5, size_lvl = 100\<rparr>] 150
     = [100, 50] \<and>
   (- 2 :: real) < 0 \<and>
   walk_book_asks [\<lparr>price = 0.5, size_lvl = 100\<rparr>, \<lparr>price = 0.5, size_lvl = 100\<rparr>] (- 2)
     = \<lparr>average_price = 0, total_filled = 0, total_cost = 0, levels_consumed = 0,
        fully_fillable = True\<rparr>"
proof -
  have r: "rnd 25 = 25" "rnd 50 = 50" "rnd 75 = 75" "rnd 150 = 150"
    using rnd_of_int[of 25] rnd_of_int[of 50] rnd_of_int[of 75] rnd_of_int[of 150]
    by simp_all
  have h: "rnd (1 / 2) = 1 / 2"
    using rnd_exact[of 1 "- 1"] by simp
  show ?thesis
    using walk_book_asks_estimate[where T = 150
        and asks = "[\<lparr>price = 0.5, size_lvl = 100\<rparr>, \<lparr>price = 0.5, size_lvl = 100\<rparr>]"]
      walk_book_asks_estimate[where T = "- 2"
        and asks = "[\<lparr>price = 0.5, size_lvl = 100\<rparr>, \<lparr>price = 0.5, size_lvl = 100\<rparr>]"]
    by (simp add: walk_book_asks_def Let_def is_double_def r h rnd_0)
qed

text \<open>
  The average price of a walk that fills anything is positive on a book in the range
  the venue quotes, for a target between \<open>2 powi (- 100)\<close> and \<open>2 powi 100\<close>: the entry
  prices that the strategies take from \<open>walk_book_asks\<close> are positive.
\<close>

lemma walk_loop_cost_lower:
  assumes "- 1074 \<le> k" "2 powi k \<le> cost" "0 \<le> remaining"
    and "list_all (\<lambda>l. 0 \<le> price l \<and> 0 \<le> size_lvl l) ls"
  shows "2 powi k \<le> fst (snd (walk_loop ls remaining cost levels))"
  using assms(2-)
proof (induction ls arbitrary: remaining cost levels)
  case Nil
  then show ?case by simp
next
  case (Cons l ls)
  show ?case
  proof (cases "remaining \<le> 0")
    case True
    with Cons.prems show ?thesis by simp
  next
    case False
    let ?q = "min remaining (size_lvl l)"
    from Cons.prems(3) have l: "0 \<le> price l" "0 \<le> size_lvl l"
      and ls: "list_all (\<lambda>l. 0 \<le> price l \<and> 0 \<le> size_lvl l) ls" by simp_all
    have "0 \<le> ?q * price l" using False l by simp
    then have "0 \<le> rnd (?q * price l)" by (rule rnd_nonneg)
    with Cons.prems(1) have "2 powi k \<le> cost + rnd (?q * price l)" by simp
    then have c: "2 powi k \<le> rnd (cost + rnd (?q * price l))"
      by (rule rnd_ge_pow2[OF _ assms(1)])
    have r: "0 \<le> rnd (remaining - ?q)" by (rule rnd_nonneg) simp
    from Cons.IH[OF c r ls] False show ?thesis by (simp add: Let_def)
  qed
qed

lemma walk_book_asks_average_price_pos:
  assumes "book_in_range asks" "is_double T" "2 powi (- 100) \<le> T" "T \<le> 2 powi 100"
    and "0 < total_filled (walk_book_asks asks T)"
  shows "0 < average_price (walk_book_asks asks T)"
proof -
  let ?e = "walk_book_asks asks T"
  have T: "0 < T" using assms(3) zero_less_power_int[of "2::real" "- 100"] by linarith
  have ne: "asks \<noteq> []"
  proof
    assume "asks = []"
    with assms(5) show False by (simp add: walk_book_asks_def rnd_0)
  qed
  then obtain l ls where asks: "asks = l # ls" by (cases asks) auto
  from assms(1) asks have l: "2 powi (- 10) \<le> price l" "2 powi (- 100) \<le> size_lvl l"
    and ls: "list_all (\<lambda>l. 0 \<le> price l \<and> 0 \<le> size_lvl l) ls"
    by (auto simp: book_in_range_def list_all_iff intro: order_trans[rotated])
  let ?q = "min T (size_lvl l)"
  have q: "2 powi (- 100) \<le> ?q" using assms(3) l(2) by simp
  have "(2::real) powi (- 100) * 2 powi (- 10) \<le> ?q * price l"
    using q l(1) by (intro mult_mono) simp_all
  then have "(2::real) powi (- 110) \<le> ?q * price l"
    using power_int_add[of "2::real" "- 100" "- 10"] by simp
  then have "2 powi (- 110) \<le> rnd (?q * price l)"
    by (rule rnd_ge_pow2) simp
  then have "2 powi (- 110) \<le> 0 + rnd (?q * price l)" by simp
  then have c1: "2 powi (- 110) \<le> rnd (0 + rnd (?q * price l))"
    by (rule rnd_ge_pow2) simp
  have r1: "0 \<le> rnd (T - ?q)" by (rule rnd_nonneg) simp
  have cost: "2 powi (- 110) \<le> total_cost ?e"
    using walk_loop_cost_lower[OF _ c1 r1 ls, of 1] T
    by (simp add: walk_book_asks_def asks Let_def split_beta)
  have filled: "total_filled ?e \<le> 2 powi 100"
    using total_filled_le_target[of T asks] T assms(2,4) by simp
  have "(2::real) powi (- 110) / 2 powi 100 \<le> total_cost ?e / total_filled ?e"
    using cost filled assms(5) by (intro frac_le) simp_all
  moreover have "(2::real) powi (- 110) / 2 powi 100 = 2 powi (- 210)"
    using power_int_diff[of "2::real" "- 110" 100] by simp
  ultimately have "2 powi (- 210) \<le> total_cost ?e / total_filled ?e" by simp
  then have "2 powi (- 210) \<le> rnd (total_cost ?e / total_filled ?e)"
    by (rule rnd_ge_pow2) simp
  moreover have "(0::real) < 2 powi (- 210)" by (rule zero_less_power_int) simp
  ultimately show ?thesis
    using assms(5) by (simp add: walk_book_asks_fields(5))
qed

subsection \<open>The confirmed external price\<close>

text \<open>
  Claim C6, evaluated. When one source answers and the other does not, the function
  returns the answer of the one source: it does not abstain. Two answers within 0.5
  percent give their mean, two answers further apart give nothing.
\<close>

theorem btc_price_single_source_fallback:
  "get_btc_price_confirmed (Some 60000) None = Some 60000 \<and>
   get_btc_price_confirmed None (Some 60000) = Some 60000 \<and>
   get_btc_price_confirmed (Some 60000) (Some 60100) = Some 60050 \<and>
   get_btc_price_confirmed (Some 60000) (Some 61000) = None"
  by (simp add: get_btc_price_confirmed_def truthy_def Let_def)

subsection \<open>New-market classification\<close>

text \<open>
  Claim C7 (amended). The classification is a function of the naive sum: high priority
  exactly when the sum is at most \<open>HIGH_PRIORITY_THRESHOLD\<close>, standard exactly when it
  is above that and at most 0.97, and the market is skipped exactly when the sum is
  above 0.97.
\<close>

theorem classify_opportunity_bands:
  "(classify_opportunity naive_sum = Some HIGH) = (naive_sum \<le> HIGH_PRIORITY_THRESHOLD) \<and>
   (classify_opportunity naive_sum = Some STANDARD)
      = (HIGH_PRIORITY_THRESHOLD < naive_sum \<and> naive_sum \<le> 0.97) \<and>
   (classify_opportunity naive_sum = None) = (0.97 < naive_sum)"
  by (auto simp: classify_opportunity_def HIGH_PRIORITY_THRESHOLD_def)

text \<open>A sum of 0.98 lies between the two thresholds of the configuration and is skipped.\<close>

theorem classify_opportunity_bands_counterexample:
  "HIGH_PRIORITY_THRESHOLD < 0.98 \<and> 0.98 \<le> ARB_THRESHOLD \<and>
   classify_opportunity 0.98 = None"
  by (simp add: classify_opportunity_def HIGH_PRIORITY_THRESHOLD_def ARB_THRESHOLD_def)

theorem classify_opportunity_bands_witness:
  "classify_opportunity 0.9 = Some HIGH \<and> classify_opportunity 0.94 = Some HIGH \<and>
   classify_opportunity 0.95 = Some STANDARD \<and> classify_opportunity 0.97 = Some STANDARD \<and>
   classify_opportunity 0.975 = None"
  using classify_opportunity_bands[of "0.9"] classify_opportunity_bands[of "0.94"]
    classify_opportunity_bands[of "0.95"] classify_opportunity_bands[of "0.97"]
    classify_opportunity_bands[of "0.975"]
  by (simp add: HIGH_PRIORITY_THRESHOLD_def)

subsection \<open>Paired order: one leg filled at the timeout\<close>

text \<open>
  Claim C5, evaluated. Live mode, both legs submitted; in both polls the YES order has
  left the open list and the NO order is still in it. At the timeout the NO order is
  cancelled and a SELL of the YES leg at its price and size is submitted. Whether the
  recovery sell is then filled (first case) or still open (second case, with the
  warning), the YES leg keeps the status \<open>filled\<close> and the strategy records it as an
  open position: the ledger holds one open position in both cases.
\<close>

theorem recovered_leg_stays_in_ledger:
  "place_arb_pair False (\<lambda>n. Some ''y1'') (\<lambda>n. Some ''n1'')
       [(Some [''n1''], Some [''n1'']), (Some [''n1''], Some [''n1''])]
       (\<lambda>oid. True) (\<lambda>n. Some ''s1'') (Some [])
       ''Y'' ''N'' 0.48 0.5 200 0
     = (\<lparr>yes_leg = \<lparr>o_token_id = ''Y'', o_side = ''BUY'', o_price = 0.48, o_size = 200,
                     order_id = Some ''y1'', status = ''filled'', submitted_at = 0\<rparr>,
          no_leg = \<lparr>o_token_id = ''N'', o_side = ''BUY'', o_price = 0.5, o_size = 200,
                    order_id = Some ''n1'', status = ''cancelled'', submitted_at = 0\<rparr>\<rparr>,
        [Create_limit_order ''Y'' ''BUY'' 0.48 200, Create_limit_order ''N'' ''BUY'' 0.5 200,
         Cancel_order ''n1'', Create_limit_order ''Y'' ''SELL'' 0.48 200]) \<and>
   map token_id (open_positions (fst (snd (track_positions new_tracker (new_risk_manager 0)
       (fst (place_arb_pair False (\<lambda>n. Some ''y1'') (\<lambda>n. Some ''n1'')
              [(Some [''n1''], Some [''n1'']), (Some [''n1''], Some [''n1''])]
              (\<lambda>oid. True) (\<lambda>n. Some ''s1'') (Some [])
              ''Y'' ''N'' 0.48 0.5 200 0))
       ''Y'' ''N'' ''c'' ''q'' 0.48 0.5 200 1000 2 0)))) = [''Y''] \<and>
   snd (place_arb_pair False (\<lambda>n. Some ''y1'') (\<lambda>n. Some ''n1'')
       [(Some [''n1''], Some [''n1'']), (Some [''n1''], Some [''n1''])]
       (\<lambda>oid. True) (\<lambda>n. Some ''s1'') (Some [''s1''])
       ''Y'' ''N'' 0.48 0.5 200 0)
     = [Create_limit_order ''Y'' ''BUY'' 0.48 200, Create_limit_order ''N'' ''BUY'' 0.5 200,
        Cancel_order ''n1'', Create_limit_order ''Y'' ''SELL'' 0.48 200,
        Warn_recovery_sell_unfilled ''Y''] \<and>
   map token_id (open_positions (fst (snd (track_positions new_tracker (new_risk_manager 0)
       (fst (place_arb_pair False (\<lambda>n. Some ''y1'') (\<lambda>n. Some ''n1'')
              [(Some [''n1''], Some [''n1'']), (Some [''n1''], Some [''n1''])]
              (\<lambda>oid. True) (\<lambda>n. Some ''s1'') (Some [''s1''])
              ''Y'' ''N'' 0.48 0.5 200 0))
       ''Y'' ''N'' ''c'' ''q'' 0.48 0.5 200 1000 2 0)))) = [''Y'']"
  by (simp add: order_eval ledger_eval)

end
